theory Spec2Isabelle
  imports Main "HOL-Library.Word"
begin

section \<open>The staking keeper wrapper: \<open>x/staking/keeper/keeper.go\<close>\<close>

text \<open>
  The file under verification holds one orchestrating method, \<open>Keeper.Delegate\<close>, and the
  two pool transfer helpers \<open>bondedTokensToNotBonded\<close> and \<open>notBondedTokensToBonded\<close>.
  Everything they call belongs to the Cosmos SDK (the embedded staking keeper, the bank
  keeper, the address codecs, the hooks): those collaborators are parameters of the model.
  A collaborator that receives the Go context is a function of a world state \<open>'w\<close> that
  returns its result together with the new world state. Every collaborator call the
  source makes is appended to a call log, so that the order and the number of calls can
  be stated. A collaborator that itself panics or never returns is outside the model.
\<close>

subsection \<open>Values\<close>

type_synonym bytes = "8 word list"

type_synonym AccAddress = bytes

text \<open>
  Go errors. \<open>ErrDelegatorShareExRateInvalid\<close> and \<open>ErrNoDelegation\<close> are the two sentinels
  the source names; \<open>ErrOther\<close> stands for any other error value and \<open>ErrWrap\<close> for an
  error that wraps another one. \<open>errors_Is\<close> is Go's \<open>errors.Is\<close>: it follows the chain of
  wrapped errors.
\<close>

datatype error =
    ErrDelegatorShareExRateInvalid
  | ErrNoDelegation
  | ErrOther string
  | ErrWrap string error

fun errors_Is :: "error \<Rightarrow> error \<Rightarrow> bool" where
  "errors_Is (ErrWrap msg inner) target =
     (ErrWrap msg inner = target \<or> errors_Is inner target)"
| "errors_Is err target = (err = target)"

text \<open>
  \<open>math.LegacyDec\<close> is a struct around a pointer to a big integer, the value scaled by
  \<open>10^18\<close>. \<open>NilDec\<close> is the Go zero value \<open>math.LegacyDec{}\<close> (nil pointer), \<open>Dec i\<close> a
  decimal whose scaled integer is \<open>i\<close>; \<open>math.LegacyZeroDec()\<close> is \<open>Dec 0\<close>.
\<close>

datatype LegacyDec = NilDec | Dec int

definition LegacyZeroDec :: LegacyDec where
  "LegacyZeroDec = Dec 0"

text \<open>A Go call either panics (with a message) or returns.\<close>

datatype 'a outcome = Panic string | Return 'a

text \<open>
  \<open>LegacyDec.Add\<close>: the sum of the scaled integers. The library dereferences both
  pointers (a nil decimal panics) and panics when the sum needs more than
  \<open>maxDecBitLen = 315\<close> bits.
\<close>

definition maxDecBitLen :: nat where
  "maxDecBitLen = 315"

fun LegacyDec_Add :: "LegacyDec \<Rightarrow> LegacyDec \<Rightarrow> LegacyDec outcome" where
  "LegacyDec_Add (Dec a) (Dec b) =
     (if 2 ^ maxDecBitLen \<le> \<bar>a + b\<bar> then Panic ''Int overflow'' else Return (Dec (a + b)))"
| "LegacyDec_Add _ _ = Panic ''nil pointer dereference''"

text \<open>
  \<open>types.BondStatus\<close>. Of a status the source only asks whether it equals \<open>Bonded\<close>,
  \<open>Unbonding\<close> or \<open>Unbonded\<close>; \<open>Unspecified\<close> stands for every other value of the enum.
\<close>

datatype BondStatus = Unspecified | Unbonded | Unbonding | Bonded

text \<open>
  Modelled from the spec: the \<open>Validator\<close> record of the SDK's staking types, which is not
  part of this file. The spec's data model gives it an operator address, a bonding
  status, an aggregate token total and an aggregate share total (here the scaled integer
  of a decimal that is never nil).
\<close>

record Validator =
  OperatorAddress :: string
  Status :: BondStatus
  Tokens :: int
  DelegatorShares :: int

definition GetOperator :: "Validator \<Rightarrow> string" where
  "GetOperator v = OperatorAddress v"

definition IsBonded :: "Validator \<Rightarrow> bool" where
  "IsBonded v = (Status v = Bonded)"

definition IsUnbonding :: "Validator \<Rightarrow> bool" where
  "IsUnbonding v = (Status v = Unbonding)"

definition IsUnbonded :: "Validator \<Rightarrow> bool" where
  "IsUnbonded v = (Status v = Unbonded)"

text \<open>
  Modelled from the spec: \<open>Validator.InvalidExRate\<close> of the SDK. The exchange rate
  "becomes invalid when shares > 0 but tokens collapse to zero".
\<close>

definition InvalidExRate :: "Validator \<Rightarrow> bool" where
  "InvalidExRate v = (Tokens v = 0 \<and> 0 < DelegatorShares v)"

text \<open>The \<open>Delegation\<close> record and its constructor \<open>types.NewDelegation\<close>.\<close>

record Delegation =
  DelegatorAddress :: string
  ValidatorAddress :: string
  Shares :: LegacyDec

definition NewDelegation :: "string \<Rightarrow> string \<Rightarrow> LegacyDec \<Rightarrow> Delegation" where
  "NewDelegation delegatorAddr validatorAddr shares =
     \<lparr>DelegatorAddress = delegatorAddr, ValidatorAddress = validatorAddr, Shares = shares\<rparr>"

type_synonym Coin = "string \<times> int"

type_synonym Coins = "Coin list"

text \<open>
  Modelled from the spec: the names of the two pools, constants of the SDK's staking types
  (\<open>types.BondedPoolName\<close>, \<open>types.NotBondedPoolName\<close>).
\<close>

definition BondedPoolName :: string where
  "BondedPoolName = ''bonded_tokens_pool''"

definition NotBondedPoolName :: string where
  "NotBondedPoolName = ''not_bonded_tokens_pool''"

subsection \<open>Collaborators\<close>

text \<open>
  The keeper's collaborators, one field for each call the source makes:
  \<^item> \<open>StringToBytes\<close>: \<open>k.ValidatorAddressCodec().StringToBytes\<close>;
  \<^item> \<open>BytesToString\<close>: \<open>k.ak.AddressCodec().BytesToString\<close>;
  \<^item> \<open>GetDelegation\<close>, \<open>SetDelegation\<close>, \<open>BondDenom\<close>, \<open>AddValidatorTokensAndShares\<close>:
    methods of the embedded SDK staking keeper;
  \<^item> the three hooks of \<open>k.Hooks()\<close>;
  \<^item> \<open>DelegateCoinsFromAccountToModule\<close>, \<open>SendCoinsFromModuleToModule\<close>: the bank keeper;
  \<^item> \<open>NewCoins\<close>: \<open>sdk.NewCoins(sdk.NewCoin(denom, amount))\<close>, which panics on a coin the
    SDK refuses.
  An error result \<open>None\<close> is Go's \<open>nil\<close> error.
\<close>

record 'w Keeper =
  StringToBytes :: "string \<Rightarrow> error + bytes"
  BytesToString :: "AccAddress \<Rightarrow> error + string"
  GetDelegation :: "'w \<Rightarrow> AccAddress \<Rightarrow> bytes \<Rightarrow> (error + Delegation) \<times> 'w"
  BeforeDelegationSharesModified :: "'w \<Rightarrow> AccAddress \<Rightarrow> bytes \<Rightarrow> error option \<times> 'w"
  BeforeDelegationCreated :: "'w \<Rightarrow> AccAddress \<Rightarrow> bytes \<Rightarrow> error option \<times> 'w"
  AfterDelegationModified :: "'w \<Rightarrow> AccAddress \<Rightarrow> bytes \<Rightarrow> error option \<times> 'w"
  BondDenom :: "'w \<Rightarrow> (error + string) \<times> 'w"
  NewCoins :: "string \<Rightarrow> int \<Rightarrow> Coins outcome"
  DelegateCoinsFromAccountToModule ::
    "'w \<Rightarrow> AccAddress \<Rightarrow> string \<Rightarrow> Coins \<Rightarrow> error option \<times> 'w"
  SendCoinsFromModuleToModule :: "'w \<Rightarrow> string \<Rightarrow> string \<Rightarrow> Coins \<Rightarrow> error option \<times> 'w"
  AddValidatorTokensAndShares ::
    "'w \<Rightarrow> Validator \<Rightarrow> int \<Rightarrow> (Validator \<times> LegacyDec \<times> error option) \<times> 'w"
  SetDelegation :: "'w \<Rightarrow> Delegation \<Rightarrow> error option \<times> 'w"

text \<open>
  The call log: one event for each collaborator call, with its arguments and, last, what
  the call returned.
\<close>

datatype event =
    StringToBytes_call string "error + bytes"
  | BytesToString_call AccAddress "error + string"
  | GetDelegation_call AccAddress bytes "error + Delegation"
  | BeforeDelegationSharesModified_call AccAddress bytes "error option"
  | BeforeDelegationCreated_call AccAddress bytes "error option"
  | AfterDelegationModified_call AccAddress bytes "error option"
  | BondDenom_call "error + string"
  | DelegateCoinsFromAccountToModule_call AccAddress string Coins "error option"
  | SendCoinsFromModuleToModule_call string string Coins "error option"
  | AddValidatorTokensAndShares_call Validator int "Validator \<times> LegacyDec \<times> error option"
  | SetDelegation_call Delegation "error option"

type_synonym 'w st = "'w \<times> event list"

text \<open>
  \<open>invoke f ev s\<close> runs the collaborator \<open>f\<close> on the world of \<open>s\<close> and appends the event
  \<open>ev r\<close> for its result \<open>r\<close> to the log of \<open>s\<close>.
\<close>

definition invoke :: "('w \<Rightarrow> 'r \<times> 'w) \<Rightarrow> ('r \<Rightarrow> event) \<Rightarrow> 'w st \<Rightarrow> 'r \<times> 'w st" where
  "invoke f ev s = (case f (fst s) of (r, w') \<Rightarrow> (r, (w', snd s @ [ev r])))"

fun is_transfer :: "event \<Rightarrow> bool" where
  "is_transfer (DelegateCoinsFromAccountToModule_call _ _ _ _) = True"
| "is_transfer (SendCoinsFromModuleToModule_call _ _ _ _) = True"
| "is_transfer _ = False"

fun is_store_write :: "event \<Rightarrow> bool" where
  "is_store_write (SetDelegation_call _ _) = True"
| "is_store_write (AddValidatorTokensAndShares_call _ _ _) = True"
| "is_store_write _ = False"

fun is_hook :: "event \<Rightarrow> bool" where
  "is_hook (BeforeDelegationSharesModified_call _ _ _) = True"
| "is_hook (BeforeDelegationCreated_call _ _ _) = True"
| "is_hook (AfterDelegationModified_call _ _ _) = True"
| "is_hook _ = False"

subsection \<open>The pool transfer helpers\<close>

text \<open>\<open>bondedTokensToNotBonded\<close>, lines 156 to 164 of the source.\<close>

definition bondedTokensToNotBonded ::
  "'w Keeper \<Rightarrow> 'w st \<Rightarrow> int \<Rightarrow> error option outcome \<times> 'w st" where
  "bondedTokensToNotBonded k s tokens =
     (case invoke (BondDenom k) BondDenom_call s of
        (Inl err, s1) \<Rightarrow> (Return (Some err), s1)
      | (Inr bondDenom, s1) \<Rightarrow>
          (case NewCoins k bondDenom tokens of
             Panic msg \<Rightarrow> (Panic msg, s1)
           | Return coins \<Rightarrow>
               (case invoke
                       (\<lambda>w. SendCoinsFromModuleToModule k w BondedPoolName NotBondedPoolName coins)
                       (SendCoinsFromModuleToModule_call BondedPoolName NotBondedPoolName coins) s1 of
                  (e, s2) \<Rightarrow> (Return e, s2))))"

text \<open>\<open>notBondedTokensToBonded\<close>, lines 167 to 175 of the source.\<close>

definition notBondedTokensToBonded ::
  "'w Keeper \<Rightarrow> 'w st \<Rightarrow> int \<Rightarrow> error option outcome \<times> 'w st" where
  "notBondedTokensToBonded k s tokens =
     (case invoke (BondDenom k) BondDenom_call s of
        (Inl err, s1) \<Rightarrow> (Return (Some err), s1)
      | (Inr bondDenom, s1) \<Rightarrow>
          (case NewCoins k bondDenom tokens of
             Panic msg \<Rightarrow> (Panic msg, s1)
           | Return coins \<Rightarrow>
               (case invoke
                       (\<lambda>w. SendCoinsFromModuleToModule k w NotBondedPoolName BondedPoolName coins)
                       (SendCoinsFromModuleToModule_call NotBondedPoolName BondedPoolName coins) s1 of
                  (e, s2) \<Rightarrow> (Return e, s2))))"

subsection \<open>Delegate\<close>

text \<open>
  Lines 62 to 78: get or create the delegation object and call the matching hook. The
  result is \<open>Inl (shares, err)\<close> when the source returns from inside the block, and
  \<open>Inr (delegation, err)\<close> with the hook's error otherwise.
\<close>

definition Delegate_delegation ::
  "'w Keeper \<Rightarrow> 'w st \<Rightarrow> AccAddress \<Rightarrow> bytes \<Rightarrow> Validator \<Rightarrow>
     ((LegacyDec \<times> error) + (Delegation \<times> error option)) \<times> 'w st" where
  "Delegate_delegation k s delAddr valbz validator =
     (case invoke (\<lambda>w. GetDelegation k w delAddr valbz) (GetDelegation_call delAddr valbz) s of
        (Inr delegation, s1) \<Rightarrow>
          (case invoke (\<lambda>w. BeforeDelegationSharesModified k w delAddr valbz)
                  (BeforeDelegationSharesModified_call delAddr valbz) s1 of
             (err, s2) \<Rightarrow> (Inr (delegation, err), s2))
      | (Inl err, s1) \<Rightarrow>
          (if errors_Is err ErrNoDelegation then
             (case invoke (\<lambda>w. (BytesToString k delAddr, w)) (BytesToString_call delAddr) s1 of
                (Inl err1, s2) \<Rightarrow> (Inl (NilDec, err1), s2)
              | (Inr delAddrStr, s2) \<Rightarrow>
                  (case invoke (\<lambda>w. BeforeDelegationCreated k w delAddr valbz)
                          (BeforeDelegationCreated_call delAddr valbz) s2 of
                     (err', s3) \<Rightarrow>
                       (Inr (NewDelegation delAddrStr (GetOperator validator) LegacyZeroDec, err'),
                        s3)))
           else (Inl (LegacyZeroDec, err), s1)))"

text \<open>
  Lines 84 to 134: the movement of tokens. \<open>Return (Some err)\<close> is the source's
  \<open>return math.LegacyDec{}, err\<close>, \<open>Return None\<close> falls through to the minting of shares.
\<close>

definition Delegate_tokens ::
  "'w Keeper \<Rightarrow> 'w st \<Rightarrow> AccAddress \<Rightarrow> int \<Rightarrow> BondStatus \<Rightarrow> Validator \<Rightarrow> bool \<Rightarrow>
     error option outcome \<times> 'w st" where
  "Delegate_tokens k s delAddr bondAmt tokenSrc validator subtractAccount =
     (if subtractAccount then
        (if tokenSrc = Bonded then (Panic ''delegation token source cannot be bonded'', s)
         else
           (case (if IsBonded validator then Some BondedPoolName
                  else if IsUnbonding validator \<or> IsUnbonded validator then Some NotBondedPoolName
                  else None) of
              None \<Rightarrow> (Panic ''invalid validator status'', s)
            | Some sendName \<Rightarrow>
                (case invoke (BondDenom k) BondDenom_call s of
                   (Inl err, s1) \<Rightarrow> (Return (Some err), s1)
                 | (Inr bondDenom, s1) \<Rightarrow>
                     (case NewCoins k bondDenom bondAmt of
                        Panic msg \<Rightarrow> (Panic msg, s1)
                      | Return coins \<Rightarrow>
                          (case invoke
                                  (\<lambda>w. DelegateCoinsFromAccountToModule k w delAddr sendName coins)
                                  (DelegateCoinsFromAccountToModule_call delAddr sendName coins) s1 of
                             (e, s2) \<Rightarrow> (Return e, s2))))))
      else
        (if tokenSrc = Bonded \<and> IsBonded validator then (Return None, s)
         else if (tokenSrc = Unbonded \<or> tokenSrc = Unbonding) \<and> \<not> IsBonded validator
           then (Return None, s)
         else if (tokenSrc = Unbonded \<or> tokenSrc = Unbonding) \<and> IsBonded validator
           then notBondedTokensToBonded k s bondAmt
         else if tokenSrc = Bonded \<and> \<not> IsBonded validator
           then bondedTokensToNotBonded k s bondAmt
         else (Panic ''unknown token source bond status'', s)))"

text \<open>Lines 136 to 152: mint the shares, update and persist the delegation, call the hook.\<close>

definition Delegate_shares ::
  "'w Keeper \<Rightarrow> 'w st \<Rightarrow> AccAddress \<Rightarrow> bytes \<Rightarrow> int \<Rightarrow> Validator \<Rightarrow> Delegation \<Rightarrow>
     (LegacyDec \<times> error option) outcome \<times> 'w st" where
  "Delegate_shares k s delAddr valbz bondAmt validator delegation =
     (case invoke (\<lambda>w. AddValidatorTokensAndShares k w validator bondAmt)
             (AddValidatorTokensAndShares_call validator bondAmt) s of
        ((valOut, newShares, Some err), s1) \<Rightarrow> (Return (newShares, Some err), s1)
      | ((valOut, newShares, None), s1) \<Rightarrow>
          (case LegacyDec_Add (Shares delegation) newShares of
             Panic msg \<Rightarrow> (Panic msg, s1)
           | Return sharesOut \<Rightarrow>
               (case invoke (\<lambda>w. SetDelegation k w (delegation\<lparr>Shares := sharesOut\<rparr>))
                       (SetDelegation_call (delegation\<lparr>Shares := sharesOut\<rparr>)) s1 of
                  (Some err, s2) \<Rightarrow> (Return (newShares, Some err), s2)
                | (None, s2) \<Rightarrow>
                    (case invoke (\<lambda>w. AfterDelegationModified k w delAddr valbz)
                            (AfterDelegationModified_call delAddr valbz) s2 of
                       (Some err, s3) \<Rightarrow> (Return (newShares, Some err), s3)
                     | (None, s3) \<Rightarrow> (Return (newShares, None), s3)))))"

text \<open>
  \<open>Delegate\<close>, lines 46 to 153. The result is the outcome (a panic, or the pair of the
  returned decimal and error) with the final world and call log.
\<close>

definition Delegate ::
  "'w Keeper \<Rightarrow> 'w st \<Rightarrow> AccAddress \<Rightarrow> int \<Rightarrow> BondStatus \<Rightarrow> Validator \<Rightarrow> bool \<Rightarrow>
     (LegacyDec \<times> error option) outcome \<times> 'w st" where
  "Delegate k s delAddr bondAmt tokenSrc validator subtractAccount =
     (if InvalidExRate validator
      then (Return (LegacyZeroDec, Some ErrDelegatorShareExRateInvalid), s)
      else
        (case invoke (\<lambda>w. (StringToBytes k (GetOperator validator), w))
                (StringToBytes_call (GetOperator validator)) s of
           (Inl err, s1) \<Rightarrow> (Return (LegacyZeroDec, Some err), s1)
         | (Inr valbz, s1) \<Rightarrow>
             (case Delegate_delegation k s1 delAddr valbz validator of
                (Inl (shares, err), s2) \<Rightarrow> (Return (shares, Some err), s2)
              | (Inr (delegation, Some err), s2) \<Rightarrow> (Return (LegacyZeroDec, Some err), s2)
              | (Inr (delegation, None), s2) \<Rightarrow>
                  (case Delegate_tokens k s2 delAddr bondAmt tokenSrc validator subtractAccount of
                     (Panic msg, s3) \<Rightarrow> (Panic msg, s3)
                   | (Return (Some err), s3) \<Rightarrow> (Return (NilDec, Some err), s3)
                   | (Return None, s3) \<Rightarrow>
                       Delegate_shares k s3 delAddr valbz bondAmt validator delegation))))"

subsection \<open>A keeper for concrete runs\<close>

text \<open>
  An in-memory keeper on which \<open>Delegate\<close> can be run: one delegation slot, the balance of
  the delegator's account and of the two pools, a codec that knows one validator and one
  delegator address, hooks that succeed, and a minting step that issues
  \<open>amount * shares / tokens\<close> (the amount itself for a validator without shares).
\<close>

record World =
  delegationStore :: "Delegation option"
  accountBalance :: int
  bondedPool :: int
  notBondedPool :: int

definition coinsAmount :: "Coins \<Rightarrow> int" where
  "coinsAmount coins = sum_list (map snd coins)"

definition testKeeper :: "World Keeper" where
  "testKeeper =
     \<lparr>StringToBytes =
        (\<lambda>str. if str = ''evmosvaloper1'' then Inr [1] else Inl (ErrOther ''decoding bech32 failed'')),
      BytesToString =
        (\<lambda>bz. if bz = [2] then Inr ''evmos1'' else Inl (ErrOther ''encoding bech32 failed'')),
      GetDelegation =
        (\<lambda>w delAddr valbz.
           (case delegationStore w of None \<Rightarrow> Inl ErrNoDelegation | Some d \<Rightarrow> Inr d, w)),
      BeforeDelegationSharesModified = (\<lambda>w delAddr valbz. (None, w)),
      BeforeDelegationCreated = (\<lambda>w delAddr valbz. (None, w)),
      AfterDelegationModified = (\<lambda>w delAddr valbz. (None, w)),
      BondDenom = (\<lambda>w. (Inr ''aevmos'', w)),
      NewCoins =
        (\<lambda>denom amount.
           if amount < 0 then Panic ''negative coin amount''
           else if amount = 0 then Return [] else Return [(denom, amount)]),
      DelegateCoinsFromAccountToModule =
        (\<lambda>w delAddr recipientModule coins.
           if accountBalance w < coinsAmount coins then (Some (ErrOther ''insufficient funds''), w)
           else if recipientModule = BondedPoolName
           then (None, w\<lparr>accountBalance := accountBalance w - coinsAmount coins,
                          bondedPool := bondedPool w + coinsAmount coins\<rparr>)
           else (None, w\<lparr>accountBalance := accountBalance w - coinsAmount coins,
                          notBondedPool := notBondedPool w + coinsAmount coins\<rparr>)),
      SendCoinsFromModuleToModule =
        (\<lambda>w senderModule recipientModule coins.
           if senderModule = BondedPoolName
           then (if bondedPool w < coinsAmount coins then (Some (ErrOther ''insufficient funds''), w)
                 else (None, w\<lparr>bondedPool := bondedPool w - coinsAmount coins,
                                notBondedPool := notBondedPool w + coinsAmount coins\<rparr>))
           else (if notBondedPool w < coinsAmount coins
                 then (Some (ErrOther ''insufficient funds''), w)
                 else (None, w\<lparr>bondedPool := bondedPool w + coinsAmount coins,
                                notBondedPool := notBondedPool w - coinsAmount coins\<rparr>))),
      AddValidatorTokensAndShares =
        (\<lambda>w validator tokensToAdd.
           (let issued = (if DelegatorShares validator = 0 then tokensToAdd * 10 ^ 18
                          else (DelegatorShares validator * tokensToAdd) div Tokens validator)
            in ((validator\<lparr>Tokens := Tokens validator + tokensToAdd,
                            DelegatorShares := DelegatorShares validator + issued\<rparr>,
                 Dec issued, None), w))),
      SetDelegation = (\<lambda>w delegation. (None, w\<lparr>delegationStore := Some delegation\<rparr>))\<rparr>"

definition testWorld :: World where
  "testWorld =
     \<lparr>delegationStore = None, accountBalance = 1000, bondedPool = 5000, notBondedPool = 700\<rparr>"

definition testValidator :: Validator where
  "testValidator =
     \<lparr>OperatorAddress = ''evmosvaloper1'', Status = Bonded, Tokens = 5000,
      DelegatorShares = 5000 * 10 ^ 18\<rparr>"

text \<open>The same keeper when the bonding denomination cannot be read.\<close>

definition noDenomKeeper :: "World Keeper" where
  "noDenomKeeper = testKeeper\<lparr>BondDenom := (\<lambda>w. (Inl (ErrOther ''bond denom not set''), w))\<rparr>"

text \<open>The same keeper when the hook before the creation of a delegation refuses.\<close>

definition failingHookKeeper :: "World Keeper" where
  "failingHookKeeper =
     testKeeper\<lparr>BeforeDelegationCreated := (\<lambda>w delAddr valbz. (Some (ErrOther ''hook refused''), w))\<rparr>"

text \<open>The same keeper when the delegation cannot be written to the store.\<close>

definition failingStoreKeeper :: "World Keeper" where
  "failingStoreKeeper =
     testKeeper\<lparr>SetDelegation := (\<lambda>w delegation. (Some (ErrOther ''store write failed''), w))\<rparr>"

text \<open>
  Modelled from the spec: the number of shares the Share Minting Primitive issues, the code
  behind \<open>AddValidatorTokensAndShares\<close>, which belongs to the SDK and is not part of this
  file. The spec gives it by contract: "returns shares = amount / exchange-rate (using the
  validator's pre-transaction rate) and updates validator aggregate totals", the exchange
  rate being tokens / shares. On scaled integers \<open>amount / (tokens / shares)\<close> is
  \<open>shares * amount div tokens\<close>.
\<close>

definition SharesFromTokens :: "Validator \<Rightarrow> int \<Rightarrow> int" where
  "SharesFromTokens v amount = (DelegatorShares v * amount) div Tokens v"

lemmas run_defs =
  Delegate_def Delegate_delegation_def Delegate_tokens_def Delegate_shares_def
  bondedTokensToNotBonded_def notBondedTokensToBonded_def invoke_def

lemmas value_defs =
  InvalidExRate_def GetOperator_def IsBonded_def IsUnbonding_def IsUnbonded_def
  NewDelegation_def LegacyZeroDec_def BondedPoolName_def NotBondedPoolName_def maxDecBitLen_def

lemmas test_defs = testKeeper_def testWorld_def testValidator_def coinsAmount_def

section \<open>The shape of a run\<close>

text \<open>
  What each block of \<open>Delegate\<close> returns and what it appends to the call log, path by
  path. The claims below follow from these by case analysis.
\<close>

lemmas case_splits = prod.splits sum.splits option.splits outcome.splits if_splits

lemma delegation_shape:
  "Delegate_delegation k (w, l) delAddr valbz v = (r, (w', l')) \<Longrightarrow>
     (\<exists>d e. r = Inr (d, e) \<and>
        l' = l @ [GetDelegation_call delAddr valbz (Inr d),
                  BeforeDelegationSharesModified_call delAddr valbz e])
   \<or> (\<exists>err. \<not> errors_Is err ErrNoDelegation \<and> r = Inl (LegacyZeroDec, err) \<and>
        l' = l @ [GetDelegation_call delAddr valbz (Inl err)])
   \<or> (\<exists>err e1. errors_Is err ErrNoDelegation \<and> r = Inl (NilDec, e1) \<and>
        l' = l @ [GetDelegation_call delAddr valbz (Inl err), BytesToString_call delAddr (Inl e1)])
   \<or> (\<exists>err str e. errors_Is err ErrNoDelegation \<and>
        r = Inr (NewDelegation str (GetOperator v) LegacyZeroDec, e) \<and>
        l' = l @ [GetDelegation_call delAddr valbz (Inl err), BytesToString_call delAddr (Inr str),
                  BeforeDelegationCreated_call delAddr valbz e])"
  unfolding Delegate_delegation_def invoke_def
  by (auto split: case_splits)

lemma pool_shape:
  "notBondedTokensToBonded k (w, l) amt = (out, (w', l')) \<Longrightarrow>
     (\<exists>e. out = Return (Some e) \<and> l' = l @ [BondDenom_call (Inl e)])
   \<or> (\<exists>d msg. out = Panic msg \<and> NewCoins k d amt = Panic msg \<and> l' = l @ [BondDenom_call (Inr d)])
   \<or> (\<exists>d coins e. out = Return e \<and> NewCoins k d amt = Return coins \<and>
        l' = l @ [BondDenom_call (Inr d),
                  SendCoinsFromModuleToModule_call NotBondedPoolName BondedPoolName coins e])"
  "bondedTokensToNotBonded k (w, l) amt = (out, (w', l')) \<Longrightarrow>
     (\<exists>e. out = Return (Some e) \<and> l' = l @ [BondDenom_call (Inl e)])
   \<or> (\<exists>d msg. out = Panic msg \<and> NewCoins k d amt = Panic msg \<and> l' = l @ [BondDenom_call (Inr d)])
   \<or> (\<exists>d coins e. out = Return e \<and> NewCoins k d amt = Return coins \<and>
        l' = l @ [BondDenom_call (Inr d),
                  SendCoinsFromModuleToModule_call BondedPoolName NotBondedPoolName coins e])"
  unfolding notBondedTokensToBonded_def bondedTokensToNotBonded_def invoke_def
  by (auto split: case_splits)

lemma shares_shape:
  "Delegate_shares k (w, l) delAddr valbz amt v d = (out, (w', l')) \<Longrightarrow>
     (\<exists>vo ns e. out = Return (ns, Some e) \<and>
        l' = l @ [AddValidatorTokensAndShares_call v amt (vo, ns, Some e)])
   \<or> (\<exists>vo ns msg. out = Panic msg \<and> LegacyDec_Add (Shares d) ns = Panic msg \<and>
        l' = l @ [AddValidatorTokensAndShares_call v amt (vo, ns, None)])
   \<or> (\<exists>vo ns sh e. LegacyDec_Add (Shares d) ns = Return sh \<and> out = Return (ns, Some e) \<and>
        l' = l @ [AddValidatorTokensAndShares_call v amt (vo, ns, None),
                  SetDelegation_call (d\<lparr>Shares := sh\<rparr>) (Some e)])
   \<or> (\<exists>vo ns sh e. LegacyDec_Add (Shares d) ns = Return sh \<and> out = Return (ns, e) \<and>
        l' = l @ [AddValidatorTokensAndShares_call v amt (vo, ns, None),
                  SetDelegation_call (d\<lparr>Shares := sh\<rparr>) None,
                  AfterDelegationModified_call delAddr valbz e])"
  unfolding Delegate_shares_def invoke_def
  by (auto split: case_splits)


lemma tokens_shape:
  "Delegate_tokens k (w, l) delAddr amt src v sub = (out, (w', l')) \<Longrightarrow>
     (out = Return None \<and> l' = l \<and> w' = w \<and> \<not> sub \<and>
        (src = Bonded \<and> IsBonded v \<or> (src = Unbonded \<or> src = Unbonding) \<and> \<not> IsBonded v))
   \<or> (out = Panic ''delegation token source cannot be bonded'' \<and> l' = l \<and> sub \<and> src = Bonded)
   \<or> (out = Panic ''invalid validator status'' \<and> l' = l \<and> sub \<and> src \<noteq> Bonded \<and>
        Status v = Unspecified)
   \<or> (out = Panic ''unknown token source bond status'' \<and> l' = l \<and> \<not> sub \<and> src = Unspecified)
   \<or> ((sub \<and> src \<noteq> Bonded \<and> Status v \<noteq> Unspecified \<or>
         \<not> sub \<and> (src = Unbonded \<or> src = Unbonding) \<and> IsBonded v \<or>
         \<not> sub \<and> src = Bonded \<and> \<not> IsBonded v) \<and>
        ((\<exists>e. out = Return (Some e) \<and> l' = l @ [BondDenom_call (Inl e)])
         \<or> (\<exists>d msg. out = Panic msg \<and> NewCoins k d amt = Panic msg \<and>
               l' = l @ [BondDenom_call (Inr d)])
         \<or> (\<exists>d coins e. out = Return e \<and> NewCoins k d amt = Return coins \<and>
               l' = l @ [BondDenom_call (Inr d),
                  (if sub then DelegateCoinsFromAccountToModule_call delAddr
                                 (if IsBonded v then BondedPoolName else NotBondedPoolName) coins e
                   else if src = Bonded
                     then SendCoinsFromModuleToModule_call BondedPoolName NotBondedPoolName coins e
                     else SendCoinsFromModuleToModule_call NotBondedPoolName BondedPoolName coins e)])))"
proof (cases sub)
  case True
  assume "Delegate_tokens k (w, l) delAddr amt src v sub = (out, (w', l'))"
  with True show ?thesis
    unfolding Delegate_tokens_def invoke_def IsBonded_def IsUnbonding_def IsUnbonded_def
    by (cases "Status v") (auto split: case_splits)
next
  case False
  assume run: "Delegate_tokens k (w, l) delAddr amt src v sub = (out, (w', l'))"
  show ?thesis
  proof (cases src)
    case Unspecified
    with False run show ?thesis by (simp add: Delegate_tokens_def)
  next
    case Unbonded
    with False run pool_shape(1) [of k w l amt out w' l'] show ?thesis
      by (auto simp add: Delegate_tokens_def split: if_splits)
  next
    case Unbonding
    with False run pool_shape(1) [of k w l amt out w' l'] show ?thesis
      by (auto simp add: Delegate_tokens_def split: if_splits)
  next
    case Bonded
    with False run pool_shape(2) [of k w l amt out w' l'] show ?thesis
      by (auto simp add: Delegate_tokens_def split: if_splits)
  qed
qed

text \<open>Neither the delegation block nor the minting block calls the bank keeper.\<close>

lemma delegation_frame:
  "Delegate_delegation k (w, l) delAddr valbz v = (r, (w', l')) \<Longrightarrow>
     filter is_transfer l' = filter is_transfer l \<and>
     filter is_store_write l' = filter is_store_write l"
  by (auto dest!: delegation_shape)

lemma shares_frame:
  "filter is_transfer (snd (snd (Delegate_shares k (w, l) delAddr valbz amt v d))) =
     filter is_transfer l"
  using shares_shape [of k w l delAddr valbz amt v d
    "fst (Delegate_shares k (w, l) delAddr valbz amt v d)"
    "fst (snd (Delegate_shares k (w, l) delAddr valbz amt v d))"
    "snd (snd (Delegate_shares k (w, l) delAddr valbz amt v d))"]
  by auto

section \<open>Runs of the in-memory keeper\<close>

text \<open>
  The first delegation of the delegator \<open>[2]\<close> to the validator: the delegation block finds
  no delegation, encodes the address and calls the creation hook.
\<close>

lemma test_delegation_created:
  "Delegate_delegation testKeeper (testWorld, [StringToBytes_call ''evmosvaloper1'' (Inr [1])])
     [2] [1] (testValidator\<lparr>Status := status\<rparr>) =
     (Inr (\<lparr>DelegatorAddress = ''evmos1'', ValidatorAddress = ''evmosvaloper1'',
            Shares = Dec 0\<rparr>, None),
      (testWorld,
       [StringToBytes_call ''evmosvaloper1'' (Inr [1]),
        GetDelegation_call [2] [1] (Inl ErrNoDelegation),
        BytesToString_call [2] (Inr ''evmos1''),
        BeforeDelegationCreated_call [2] [1] None]))"
  by (simp add: Delegate_delegation_def invoke_def value_defs test_defs)

lemma test_validator_facts:
  "\<not> InvalidExRate (testValidator\<lparr>Status := status\<rparr>)"
  "GetOperator (testValidator\<lparr>Status := status\<rparr>) = ''evmosvaloper1''"
  "StringToBytes testKeeper ''evmosvaloper1'' = Inr [1]"
  "IsBonded (testValidator\<lparr>Status := status\<rparr>) = (status = Bonded)"
  "BondDenom testKeeper w = (Inr ''aevmos'', w)"
  "NewCoins testKeeper ''aevmos'' 50 = Return [(''aevmos'', 50)]"
  "NewCoins testKeeper ''aevmos'' 100 = Return [(''aevmos'', 100)]"
  by (simp_all add: value_defs test_defs)

text \<open>A redelegation of 50 bonded tokens to the validator while it is unbonding.\<close>

lemma test_run_rebalance:
  "Delegate testKeeper (testWorld, []) [2] 50 Bonded (testValidator\<lparr>Status := Unbonding\<rparr>) False =
     (Return (Dec (50 * 10 ^ 18), None),
      (\<lparr>delegationStore =
          Some \<lparr>DelegatorAddress = ''evmos1'', ValidatorAddress = ''evmosvaloper1'',
                Shares = Dec (50 * 10 ^ 18)\<rparr>,
        accountBalance = 1000, bondedPool = 4950, notBondedPool = 750\<rparr>,
       [StringToBytes_call ''evmosvaloper1'' (Inr [1]),
        GetDelegation_call [2] [1] (Inl ErrNoDelegation),
        BytesToString_call [2] (Inr ''evmos1''),
        BeforeDelegationCreated_call [2] [1] None,
        BondDenom_call (Inr ''aevmos''),
        SendCoinsFromModuleToModule_call BondedPoolName NotBondedPoolName [(''aevmos'', 50)] None,
        AddValidatorTokensAndShares_call (testValidator\<lparr>Status := Unbonding\<rparr>) 50
          (\<lparr>OperatorAddress = ''evmosvaloper1'', Status = Unbonding, Tokens = 5050,
            DelegatorShares = 5050 * 10 ^ 18\<rparr>, Dec (50 * 10 ^ 18), None),
        SetDelegation_call
          \<lparr>DelegatorAddress = ''evmos1'', ValidatorAddress = ''evmosvaloper1'',
            Shares = Dec (50 * 10 ^ 18)\<rparr> None,
        AfterDelegationModified_call [2] [1] None]))"
  by (simp add: run_defs value_defs test_defs)

text \<open>A delegation of 100 tokens from the account to the bonded validator.\<close>

lemma test_run_direct:
  "Delegate testKeeper (testWorld, []) [2] 100 Unbonded (testValidator\<lparr>Status := Bonded\<rparr>) True =
     (Return (Dec (100 * 10 ^ 18), None),
      (\<lparr>delegationStore =
          Some \<lparr>DelegatorAddress = ''evmos1'', ValidatorAddress = ''evmosvaloper1'',
                Shares = Dec (100 * 10 ^ 18)\<rparr>,
        accountBalance = 900, bondedPool = 5100, notBondedPool = 700\<rparr>,
       [StringToBytes_call ''evmosvaloper1'' (Inr [1]),
        GetDelegation_call [2] [1] (Inl ErrNoDelegation),
        BytesToString_call [2] (Inr ''evmos1''),
        BeforeDelegationCreated_call [2] [1] None,
        BondDenom_call (Inr ''aevmos''),
        DelegateCoinsFromAccountToModule_call [2] BondedPoolName [(''aevmos'', 100)] None,
        AddValidatorTokensAndShares_call (testValidator\<lparr>Status := Bonded\<rparr>) 100
          (\<lparr>OperatorAddress = ''evmosvaloper1'', Status = Bonded, Tokens = 5100,
            DelegatorShares = 5100 * 10 ^ 18\<rparr>, Dec (100 * 10 ^ 18), None),
        SetDelegation_call
          \<lparr>DelegatorAddress = ''evmos1'', ValidatorAddress = ''evmosvaloper1'',
            Shares = Dec (100 * 10 ^ 18)\<rparr> None,
        AfterDelegationModified_call [2] [1] None]))"
  by (simp add: run_defs value_defs test_defs)

text \<open>A redelegation of 50 bonded tokens to the bonded validator: no pool changes.\<close>

lemma test_run_noop:
  "Delegate testKeeper (testWorld, []) [2] 50 Bonded (testValidator\<lparr>Status := Bonded\<rparr>) False =
     (Return (Dec (50 * 10 ^ 18), None),
      (\<lparr>delegationStore =
          Some \<lparr>DelegatorAddress = ''evmos1'', ValidatorAddress = ''evmosvaloper1'',
                Shares = Dec (50 * 10 ^ 18)\<rparr>,
        accountBalance = 1000, bondedPool = 5000, notBondedPool = 700\<rparr>,
       [StringToBytes_call ''evmosvaloper1'' (Inr [1]),
        GetDelegation_call [2] [1] (Inl ErrNoDelegation),
        BytesToString_call [2] (Inr ''evmos1''),
        BeforeDelegationCreated_call [2] [1] None,
        AddValidatorTokensAndShares_call (testValidator\<lparr>Status := Bonded\<rparr>) 50
          (\<lparr>OperatorAddress = ''evmosvaloper1'', Status = Bonded, Tokens = 5050,
            DelegatorShares = 5050 * 10 ^ 18\<rparr>, Dec (50 * 10 ^ 18), None),
        SetDelegation_call
          \<lparr>DelegatorAddress = ''evmos1'', ValidatorAddress = ''evmosvaloper1'',
            Shares = Dec (50 * 10 ^ 18)\<rparr> None,
        AfterDelegationModified_call [2] [1] None]))"
  by (simp add: run_defs value_defs test_defs)

section \<open>Reaching the movement of tokens\<close>

text \<open>
  When the exchange rate is valid, the operator address decodes and the delegation block
  hands over a delegation with no hook error, \<open>Delegate\<close> goes on with the movement of
  tokens in the state the block left.
\<close>

lemma reach_tokens:
  assumes "\<not> InvalidExRate validator"
    and "StringToBytes k (GetOperator validator) = Inr valbz"
    and "Delegate_delegation k (w, [StringToBytes_call (GetOperator validator) (Inr valbz)])
           delAddr valbz validator = (Inr (delegation, None), (w2, l2))"
  shows "Delegate k (w, []) delAddr bondAmt tokenSrc validator subtractAccount =
           (case Delegate_tokens k (w2, l2) delAddr bondAmt tokenSrc validator subtractAccount of
              (Panic msg, s3) \<Rightarrow> (Panic msg, s3)
            | (Return (Some err), s3) \<Rightarrow> (Return (NilDec, Some err), s3)
            | (Return None, s3) \<Rightarrow>
                Delegate_shares k s3 delAddr valbz bondAmt validator delegation)"
  using assms by (simp add: Delegate_def invoke_def)

text \<open>A delegation from the account with a bonded token source: the contract violation.\<close>

lemma test_run_panic:
  "Delegate testKeeper (testWorld, []) [2] 100 Bonded (testValidator\<lparr>Status := Bonded\<rparr>) True =
     (Panic ''delegation token source cannot be bonded'',
      (testWorld,
       [StringToBytes_call ''evmosvaloper1'' (Inr [1]),
        GetDelegation_call [2] [1] (Inl ErrNoDelegation),
        BytesToString_call [2] (Inr ''evmos1''),
        BeforeDelegationCreated_call [2] [1] None]))"
  by (simp add: run_defs value_defs test_defs)

section \<open>The minting block under its collaborators\<close>

text \<open>
  What the minting block does when minting returns the decimal \<open>Dec n\<close> with no error and
  the delegation holds \<open>Dec m\<close> shares, the sum being in the range of the decimal type.
\<close>

lemma shares_run:
  assumes "AddValidatorTokensAndShares k w3 validator bondAmt = ((valOut, Dec n, None), w4)"
    and "Shares delegation = Dec m"
    and "\<bar>m + n\<bar> < 2 ^ maxDecBitLen"
    and "SetDelegation k w4 (delegation\<lparr>Shares := Dec (m + n)\<rparr>) = (setErr, w5)"
    and "AfterDelegationModified k w5 delAddr valbz = (hookErr, w6)"
  shows "Delegate_shares k (w3, l3) delAddr valbz bondAmt validator delegation =
           (case setErr of
              Some err \<Rightarrow>
                (Return (Dec n, Some err),
                 (w5, l3 @ [AddValidatorTokensAndShares_call validator bondAmt (valOut, Dec n, None),
                            SetDelegation_call (delegation\<lparr>Shares := Dec (m + n)\<rparr>) (Some err)]))
            | None \<Rightarrow>
                (Return (Dec n, hookErr),
                 (w6, l3 @ [AddValidatorTokensAndShares_call validator bondAmt (valOut, Dec n, None),
                            SetDelegation_call (delegation\<lparr>Shares := Dec (m + n)\<rparr>) None,
                            AfterDelegationModified_call delAddr valbz hookErr])))"
  using assms
  by (cases setErr; cases hookErr) (simp_all add: Delegate_shares_def invoke_def)


section \<open>The delegation block under its collaborators\<close>

lemma delegation_found:
  assumes "GetDelegation k w delAddr valbz = (Inr found, w1)"
    and "BeforeDelegationSharesModified k w1 delAddr valbz = (hookErr, w2)"
  shows "Delegate_delegation k (w, l) delAddr valbz validator =
           (Inr (found, hookErr),
            (w2, l @ [GetDelegation_call delAddr valbz (Inr found),
                      BeforeDelegationSharesModified_call delAddr valbz hookErr]))"
  using assms by (simp add: Delegate_delegation_def invoke_def)

lemma delegation_created:
  assumes "GetDelegation k w delAddr valbz = (Inl gerr, w1)"
    and "errors_Is gerr ErrNoDelegation"
    and "BytesToString k delAddr = Inr str"
    and "BeforeDelegationCreated k w1 delAddr valbz = (hookErr, w2)"
  shows "Delegate_delegation k (w, l) delAddr valbz validator =
           (Inr (NewDelegation str (GetOperator validator) LegacyZeroDec, hookErr),
            (w2, l @ [GetDelegation_call delAddr valbz (Inl gerr),
                      BytesToString_call delAddr (Inr str),
                      BeforeDelegationCreated_call delAddr valbz hookErr]))"
  using assms by (simp add: Delegate_delegation_def invoke_def)

lemma prehook_error:
  assumes "\<not> InvalidExRate validator"
    and "StringToBytes k (GetOperator validator) = Inr valbz"
    and "Delegate_delegation k (w, [StringToBytes_call (GetOperator validator) (Inr valbz)])
           delAddr valbz validator = (Inr (delegation, Some err), (w2, l2))"
  shows "Delegate k (w, []) delAddr bondAmt tokenSrc validator subtractAccount =
           (Return (LegacyZeroDec, Some err), (w2, l2))"
  using assms by (simp add: Delegate_def invoke_def)

text \<open>The log of the whole call starts with the log the delegation block left.\<close>

lemma reach_prefix:
  assumes "\<not> InvalidExRate validator"
    and "StringToBytes k (GetOperator validator) = Inr valbz"
    and "Delegate_delegation k (w, [StringToBytes_call (GetOperator validator) (Inr valbz)])
           delAddr valbz validator = (Inr (delegation, hookErr), (w2, l2))"
  shows "\<exists>rest. snd (snd (Delegate k (w, []) delAddr bondAmt tokenSrc validator subtractAccount)) =
           l2 @ rest"
proof (cases hookErr)
  case (Some err)
  with assms show ?thesis
    by (simp add: prehook_error)
next
  case None
  obtain out w' log where
    run: "Delegate k (w, []) delAddr bondAmt tokenSrc validator subtractAccount = (out, (w', log))"
    by (metis prod.exhaust)
  from run assms(3) None show ?thesis
    unfolding reach_tokens [OF assms(1,2) assms(3) [unfolded None]]
    by (auto split: case_splits dest!: tokens_shape shares_shape)
qed

text \<open>A first delegation that the creation hook refuses.\<close>

lemma test_run_hook_refuses:
  "Delegate failingHookKeeper (testWorld, []) [2] amount Unbonded
     (testValidator\<lparr>Status := Bonded\<rparr>) True =
     (Return (Dec 0, Some (ErrOther ''hook refused'')),
      (testWorld,
       [StringToBytes_call ''evmosvaloper1'' (Inr [1]),
        GetDelegation_call [2] [1] (Inl ErrNoDelegation),
        BytesToString_call [2] (Inr ''evmos1''),
        BeforeDelegationCreated_call [2] [1] (Some (ErrOther ''hook refused''))]))"
  by (simp add: run_defs value_defs test_defs failingHookKeeper_def)

section \<open>The exchange-rate gate\<close>

text \<open>
  Claim C1. For a validator whose exchange rate is invalid, \<open>Delegate\<close> returns the zero
  decimal with \<open>ErrDelegatorShareExRateInvalid\<close> at once: the world and the call log come
  back as they went in, so no address was decoded, no store was read or written, no
  transfer was made and no hook was called.
\<close>

theorem C1_invalid_exchange_rate_gate:
  "InvalidExRate validator \<Longrightarrow>
     Delegate k s delAddr bondAmt tokenSrc validator subtractAccount =
       (Return (LegacyZeroDec, Some ErrDelegatorShareExRateInvalid), s)"
  by (simp add: Delegate_def)

theorem C1_invalid_exchange_rate_gate_witness:
  "InvalidExRate (testValidator\<lparr>Tokens := 0\<rparr>) \<and>
   Delegate testKeeper (testWorld, []) [2] 100 Unbonded (testValidator\<lparr>Tokens := 0\<rparr>) True =
     (Return (Dec 0, Some ErrDelegatorShareExRateInvalid), (testWorld, []))"
proof -
  have h: "InvalidExRate (testValidator\<lparr>Tokens := 0\<rparr>)"
    by (simp add: InvalidExRate_def testValidator_def)
  show ?thesis
    using h C1_invalid_exchange_rate_gate [OF h, of testKeeper "(testWorld, [])" "[2]" 100 Unbonded True]
    by (simp add: LegacyZeroDec_def)
qed

section \<open>Movement of tokens between the pools\<close>




section \<open>Delegation from the delegator's account\<close>

lemma direct_transfer_routed:
  assumes "tokenSrc \<noteq> Bonded"
    and "Delegate k (w, []) delAddr bondAmt tokenSrc validator True = (out, (w', log))"
  shows "filter is_transfer log = [] \<or>
    (\<exists>denom coins r. BondDenom_call (Inr denom) \<in> set log \<and> NewCoins k denom bondAmt = Return coins \<and>
       (Status validator = Bonded \<and>
          filter is_transfer log =
            [DelegateCoinsFromAccountToModule_call delAddr BondedPoolName coins r]
        \<or> (Status validator = Unbonding \<or> Status validator = Unbonded) \<and>
          filter is_transfer log =
            [DelegateCoinsFromAccountToModule_call delAddr NotBondedPoolName coins r]))"
  using assms unfolding Delegate_def invoke_def
  by (cases "Status validator")
     (auto simp add: IsBonded_def split: case_splits
           dest!: delegation_shape tokens_shape shares_shape)

lemma direct_transfer_made:
  assumes "tokenSrc \<noteq> Bonded"
    and "\<not> InvalidExRate validator"
    and "StringToBytes k (GetOperator validator) = Inr valbz"
    and "Delegate_delegation k (w, [StringToBytes_call (GetOperator validator) (Inr valbz)])
           delAddr valbz validator = (Inr (delegation, None), (w2, l2))"
    and "BondDenom k w2 = (Inr denom, w3)"
    and "NewCoins k denom bondAmt = Return coins"
    and "Status validator = Bonded \<and> pool = BondedPoolName
         \<or> (Status validator = Unbonding \<or> Status validator = Unbonded) \<and> pool = NotBondedPoolName"
  shows "filter is_transfer
           (snd (snd (Delegate k (w, []) delAddr bondAmt tokenSrc validator True))) =
         [DelegateCoinsFromAccountToModule_call delAddr pool coins
            (fst (DelegateCoinsFromAccountToModule k w3 delAddr pool coins))]"
proof -
  have pre: "filter is_transfer l2 = []"
    using delegation_frame [OF assms(4)] by simp
  obtain e w4 where send: "DelegateCoinsFromAccountToModule k w3 delAddr pool coins = (e, w4)"
    by (cases "DelegateCoinsFromAccountToModule k w3 delAddr pool coins")
  show ?thesis
  proof (cases e)
    case None
    with assms pre send show ?thesis
      by (auto simp add: Delegate_def Delegate_tokens_def invoke_def shares_frame
            IsBonded_def IsUnbonding_def IsUnbonded_def)
  next
    case (Some err)
    with assms pre send show ?thesis
      by (auto simp add: Delegate_def Delegate_tokens_def invoke_def
            IsBonded_def IsUnbonding_def IsUnbonded_def)
  qed
qed

text \<open>
  Claim C3. Take a call with \<open>subtractAccount = True\<close> and a token source other than
  \<open>Bonded\<close>. In every such call the log holds at most one transfer, and a transfer it
  holds is \<open>DelegateCoinsFromAccountToModule\<close> from the delegator's account, of the coins
  built from the bonding denomination and \<open>bondAmt\<close>, to the bonded pool when the
  validator's status is \<open>Bonded\<close> and to the not-bonded pool when it is \<open>Unbonding\<close> or
  \<open>Unbonded\<close>. The transfer is made whenever the exchange rate is valid, the operator
  address decodes, the delegation block hands over a delegation with no hook error, the
  bonding denomination is read and the coins are built.
\<close>

theorem C3_direct_delegation_pool_routing:
  assumes "tokenSrc \<noteq> Bonded"
    and "Delegate k (w, []) delAddr bondAmt tokenSrc validator True = (out, (w', log))"
  shows "(filter is_transfer log = [] \<or>
          (\<exists>denom coins r. BondDenom_call (Inr denom) \<in> set log \<and>
             NewCoins k denom bondAmt = Return coins \<and>
             (Status validator = Bonded \<and>
                filter is_transfer log =
                  [DelegateCoinsFromAccountToModule_call delAddr BondedPoolName coins r]
              \<or> (Status validator = Unbonding \<or> Status validator = Unbonded) \<and>
                filter is_transfer log =
                  [DelegateCoinsFromAccountToModule_call delAddr NotBondedPoolName coins r])))
       \<and> (\<not> InvalidExRate validator \<and>
          StringToBytes k (GetOperator validator) = Inr valbz \<and>
          Delegate_delegation k (w, [StringToBytes_call (GetOperator validator) (Inr valbz)])
            delAddr valbz validator = (Inr (delegation, None), (w2, l2)) \<and>
          BondDenom k w2 = (Inr denom, w3) \<and>
          NewCoins k denom bondAmt = Return coins \<longrightarrow>
            (Status validator = Bonded \<longrightarrow>
               filter is_transfer log =
                 [DelegateCoinsFromAccountToModule_call delAddr BondedPoolName coins
                    (fst (DelegateCoinsFromAccountToModule k w3 delAddr BondedPoolName coins))]) \<and>
            (Status validator = Unbonding \<or> Status validator = Unbonded \<longrightarrow>
               filter is_transfer log =
                 [DelegateCoinsFromAccountToModule_call delAddr NotBondedPoolName coins
                    (fst (DelegateCoinsFromAccountToModule k w3 delAddr NotBondedPoolName coins))]))"
proof -
  have log: "log = snd (snd (Delegate k (w, []) delAddr bondAmt tokenSrc validator True))"
    using assms(2) by simp
  show ?thesis
    using direct_transfer_routed [OF assms]
      direct_transfer_made [OF assms(1), of validator k valbz w delAddr delegation w2 l2 denom w3
        bondAmt coins BondedPoolName]
      direct_transfer_made [OF assms(1), of validator k valbz w delAddr delegation w2 l2 denom w3
        bondAmt coins NotBondedPoolName]
    unfolding log by blast
qed

theorem C3_direct_delegation_pool_routing_witness:
  "Unbonded \<noteq> Bonded \<and>
   \<not> InvalidExRate (testValidator\<lparr>Status := Bonded\<rparr>) \<and>
   StringToBytes testKeeper (GetOperator (testValidator\<lparr>Status := Bonded\<rparr>)) = Inr [1] \<and>
   BondDenom testKeeper testWorld = (Inr ''aevmos'', testWorld) \<and>
   NewCoins testKeeper ''aevmos'' 100 = Return [(''aevmos'', 100)] \<and>
   Status (testValidator\<lparr>Status := Bonded\<rparr>) = Bonded \<and>
   filter is_transfer
     (snd (snd (Delegate testKeeper (testWorld, []) [2] 100 Unbonded
                  (testValidator\<lparr>Status := Bonded\<rparr>) True))) =
     [DelegateCoinsFromAccountToModule_call [2] BondedPoolName [(''aevmos'', 100)] None]"
proof -
  have src: "Unbonded \<noteq> Bonded"
    by simp
  have deleg: "Delegate_delegation testKeeper
      (testWorld, [StringToBytes_call (GetOperator (testValidator\<lparr>Status := Bonded\<rparr>)) (Inr [1])])
      [2] [1] (testValidator\<lparr>Status := Bonded\<rparr>) =
      (Inr (\<lparr>DelegatorAddress = ''evmos1'', ValidatorAddress = ''evmosvaloper1'',
             Shares = Dec 0\<rparr>, None),
       (testWorld,
        [StringToBytes_call ''evmosvaloper1'' (Inr [1]),
         GetDelegation_call [2] [1] (Inl ErrNoDelegation),
         BytesToString_call [2] (Inr ''evmos1''),
         BeforeDelegationCreated_call [2] [1] None]))"
    by (simp add: test_validator_facts test_delegation_created)
  have dec: "StringToBytes testKeeper (GetOperator (testValidator\<lparr>Status := Bonded\<rparr>)) = Inr [1]"
    by (simp add: test_validator_facts)
  have provisos: "\<not> InvalidExRate (testValidator\<lparr>Status := Bonded\<rparr>) \<and>
      StringToBytes testKeeper (GetOperator (testValidator\<lparr>Status := Bonded\<rparr>)) = Inr [1] \<and>
      BondDenom testKeeper testWorld = (Inr ''aevmos'', testWorld) \<and>
      NewCoins testKeeper ''aevmos'' 100 = Return [(''aevmos'', 100)] \<and>
      Status (testValidator\<lparr>Status := Bonded\<rparr>) = Bonded"
    by (simp add: test_validator_facts)
  from C3_direct_delegation_pool_routing [OF src test_run_direct,
         of "[1]" _ testWorld _ "''aevmos''" testWorld "[(''aevmos'', 100)]"]
       deleg provisos
  show ?thesis
    by (simp add: test_run_direct)
qed

section \<open>Contract violations\<close>

text \<open>
  Claim C4, as amended. Once the exchange rate has been found valid, the operator address
  has decoded and the delegation block has handed over a delegation with no hook error, a
  call with \<open>subtractAccount = True\<close> and token source \<open>Bonded\<close>, or with
  \<open>subtractAccount = True\<close> and a validator status outside \<open>Bonded\<close>, \<open>Unbonding\<close>,
  \<open>Unbonded\<close>, or with \<open>subtractAccount = False\<close> and a combination of token source and
  status that is none of the four cases of the switch, panics. It panics in the state the
  delegation block left: nothing was transferred, minted or written.
\<close>

theorem C4_contract_violation_panics:
  assumes "subtractAccount \<and> tokenSrc = Bonded
           \<or> subtractAccount \<and> Status validator \<notin> {Bonded, Unbonding, Unbonded}
           \<or> \<not> subtractAccount \<and>
               \<not> (tokenSrc = Bonded \<and> IsBonded validator) \<and>
               \<not> ((tokenSrc = Unbonded \<or> tokenSrc = Unbonding) \<and> \<not> IsBonded validator) \<and>
               \<not> ((tokenSrc = Unbonded \<or> tokenSrc = Unbonding) \<and> IsBonded validator) \<and>
               \<not> (tokenSrc = Bonded \<and> \<not> IsBonded validator)"
    and "\<not> InvalidExRate validator"
    and "StringToBytes k (GetOperator validator) = Inr valbz"
    and "Delegate_delegation k (w, [StringToBytes_call (GetOperator validator) (Inr valbz)])
           delAddr valbz validator = (Inr (delegation, None), (w2, l2))"
  shows "Delegate k (w, []) delAddr bondAmt tokenSrc validator subtractAccount =
           (Panic (if subtractAccount
                   then (if tokenSrc = Bonded then ''delegation token source cannot be bonded''
                         else ''invalid validator status'')
                   else ''unknown token source bond status''),
            (w2, l2))"
  using assms(1)
  by (cases "Status validator")
     (auto simp add: reach_tokens [OF assms(2-4)] Delegate_tokens_def
        IsBonded_def IsUnbonding_def IsUnbonded_def)

text \<open>
  The claim as first stated fails before that point and in the rebalance branch. With an
  invalid exchange rate the call with \<open>subtractAccount = True\<close> and a bonded token source
  returns the error of the gate, a recoverable error and no panic. With
  \<open>subtractAccount = False\<close> a validator of unrecognised status is treated as not bonded:
  bonded tokens are moved to the not-bonded pool and the call succeeds.
\<close>

theorem C4_counterexample:
  "Delegate testKeeper (testWorld, []) [2] 100 Bonded (testValidator\<lparr>Tokens := 0\<rparr>) True =
     (Return (Dec 0, Some ErrDelegatorShareExRateInvalid), (testWorld, [])) \<and>
   Status (testValidator\<lparr>Status := Unspecified\<rparr>) \<notin> {Bonded, Unbonding, Unbonded} \<and>
   fst (Delegate testKeeper (testWorld, []) [2] 50 Bonded
          (testValidator\<lparr>Status := Unspecified\<rparr>) False) =
     Return (Dec (50 * 10 ^ 18), None)"
  by (simp add: run_defs value_defs test_defs)

theorem C4_contract_violation_panics_witness:
  "\<not> InvalidExRate (testValidator\<lparr>Status := Bonded\<rparr>) \<and>
   StringToBytes testKeeper (GetOperator (testValidator\<lparr>Status := Bonded\<rparr>)) = Inr [1] \<and>
   Delegate testKeeper (testWorld, []) [2] 100 Bonded (testValidator\<lparr>Status := Bonded\<rparr>) True =
     (Panic ''delegation token source cannot be bonded'',
      (testWorld,
       [StringToBytes_call ''evmosvaloper1'' (Inr [1]),
        GetDelegation_call [2] [1] (Inl ErrNoDelegation),
        BytesToString_call [2] (Inr ''evmos1''),
        BeforeDelegationCreated_call [2] [1] None]))"
proof -
  have viol: "True \<and> Bonded = Bonded"
    by simp
  have dec: "StringToBytes testKeeper (GetOperator (testValidator\<lparr>Status := Bonded\<rparr>)) = Inr [1]"
    by (simp add: test_validator_facts)
  have deleg: "Delegate_delegation testKeeper
      (testWorld, [StringToBytes_call (GetOperator (testValidator\<lparr>Status := Bonded\<rparr>)) (Inr [1])])
      [2] [1] (testValidator\<lparr>Status := Bonded\<rparr>) =
      (Inr (\<lparr>DelegatorAddress = ''evmos1'', ValidatorAddress = ''evmosvaloper1'',
             Shares = Dec 0\<rparr>, None),
       (testWorld,
        [StringToBytes_call ''evmosvaloper1'' (Inr [1]),
         GetDelegation_call [2] [1] (Inl ErrNoDelegation),
         BytesToString_call [2] (Inr ''evmos1''),
         BeforeDelegationCreated_call [2] [1] None]))"
    by (simp add: test_validator_facts test_delegation_created)
  from C4_contract_violation_panics [OF disjI1 [OF viol] test_validator_facts(1) dec deleg, of 100]
  show ?thesis
    by (simp add: test_validator_facts)
qed

section \<open>Loading or creating the delegation\<close>

text \<open>
  Claim C5. Let the exchange rate be valid and the operator address decode to \<open>valbz\<close>.
  \<^item> If the lookup finds a delegation, \<open>BeforeDelegationSharesModified\<close> is the next call.
  \<^item> If the lookup fails with an error that is \<open>ErrNoDelegation\<close>, the delegator address is
    encoded next. A failure of the encoding is returned (with the nil decimal). Otherwise
    \<open>BeforeDelegationCreated\<close> is the next call, and the delegation handed to the rest of
    \<open>Delegate\<close> is \<open>NewDelegation\<close> of the encoded address and the operator with zero shares.
  \<^item> Any other lookup error is returned as it is, and nothing else is called.
  \<^item> An error of either hook is returned in the state the hook left: the log ends with
    the hook and holds no transfer and no store write.
\<close>

theorem C5_load_or_create_delegation:
  assumes "\<not> InvalidExRate validator"
    and "StringToBytes k (GetOperator validator) = Inr valbz"
    and "Delegate k (w, []) delAddr bondAmt tokenSrc validator subtractAccount = (out, (w', log))"
  shows "(GetDelegation k w delAddr valbz = (Inr found, w1) \<and>
          BeforeDelegationSharesModified k w1 delAddr valbz = (hookErr, w2) \<longrightarrow>
            (\<exists>rest. log = [StringToBytes_call (GetOperator validator) (Inr valbz),
                            GetDelegation_call delAddr valbz (Inr found),
                            BeforeDelegationSharesModified_call delAddr valbz hookErr] @ rest) \<and>
            (\<forall>err. hookErr = Some err \<longrightarrow>
               out = Return (LegacyZeroDec, Some err) \<and> w' = w2 \<and>
               log = [StringToBytes_call (GetOperator validator) (Inr valbz),
                      GetDelegation_call delAddr valbz (Inr found),
                      BeforeDelegationSharesModified_call delAddr valbz (Some err)] \<and>
               filter is_transfer log = [] \<and> filter is_store_write log = []))
       \<and> (GetDelegation k w delAddr valbz = (Inl gerr, w1) \<and> errors_Is gerr ErrNoDelegation \<and>
          BytesToString k delAddr = Inl encErr \<longrightarrow>
            out = Return (NilDec, Some encErr) \<and> w' = w1 \<and>
            log = [StringToBytes_call (GetOperator validator) (Inr valbz),
                   GetDelegation_call delAddr valbz (Inl gerr),
                   BytesToString_call delAddr (Inl encErr)])
       \<and> (GetDelegation k w delAddr valbz = (Inl gerr, w1) \<and> errors_Is gerr ErrNoDelegation \<and>
          BytesToString k delAddr = Inr str \<and>
          BeforeDelegationCreated k w1 delAddr valbz = (hookErr, w2) \<longrightarrow>
            Delegate_delegation k (w, [StringToBytes_call (GetOperator validator) (Inr valbz)])
              delAddr valbz validator =
              (Inr (\<lparr>DelegatorAddress = str, ValidatorAddress = GetOperator validator,
                     Shares = LegacyZeroDec\<rparr>, hookErr),
               (w2, [StringToBytes_call (GetOperator validator) (Inr valbz),
                     GetDelegation_call delAddr valbz (Inl gerr),
                     BytesToString_call delAddr (Inr str),
                     BeforeDelegationCreated_call delAddr valbz hookErr])) \<and>
            (\<exists>rest. log = [StringToBytes_call (GetOperator validator) (Inr valbz),
                            GetDelegation_call delAddr valbz (Inl gerr),
                            BytesToString_call delAddr (Inr str),
                            BeforeDelegationCreated_call delAddr valbz hookErr] @ rest) \<and>
            (\<forall>err. hookErr = Some err \<longrightarrow>
               out = Return (LegacyZeroDec, Some err) \<and> w' = w2 \<and>
               log = [StringToBytes_call (GetOperator validator) (Inr valbz),
                      GetDelegation_call delAddr valbz (Inl gerr),
                      BytesToString_call delAddr (Inr str),
                      BeforeDelegationCreated_call delAddr valbz (Some err)] \<and>
               filter is_transfer log = [] \<and> filter is_store_write log = []))
       \<and> (GetDelegation k w delAddr valbz = (Inl gerr, w1) \<and> \<not> errors_Is gerr ErrNoDelegation \<longrightarrow>
            out = Return (LegacyZeroDec, Some gerr) \<and> w' = w1 \<and>
            log = [StringToBytes_call (GetOperator validator) (Inr valbz),
                   GetDelegation_call delAddr valbz (Inl gerr)])"
proof (intro conjI impI allI; (elim conjE)?)
  let ?l1 = "[StringToBytes_call (GetOperator validator) (Inr valbz)]"
  have log: "log = snd (snd (Delegate k (w, []) delAddr bondAmt tokenSrc validator subtractAccount))"
    using assms(3) by simp
  {
    assume get: "GetDelegation k w delAddr valbz = (Inr found, w1)"
      and hook: "BeforeDelegationSharesModified k w1 delAddr valbz = (hookErr, w2)"
    note block = delegation_found [OF get hook, of ?l1 validator]
    from reach_prefix [OF assms(1,2) block, of bondAmt tokenSrc subtractAccount]
    show "\<exists>rest. log = [StringToBytes_call (GetOperator validator) (Inr valbz),
                            GetDelegation_call delAddr valbz (Inr found),
                            BeforeDelegationSharesModified_call delAddr valbz hookErr] @ rest"
      unfolding log by simp
    fix err
    assume err: "hookErr = Some err"
    note stop = prehook_error [OF assms(1,2) block [unfolded err], of bondAmt tokenSrc subtractAccount]
    from stop assms(3) show "out = Return (LegacyZeroDec, Some err)" and "w' = w2"
      and "log = [StringToBytes_call (GetOperator validator) (Inr valbz),
                      GetDelegation_call delAddr valbz (Inr found),
                      BeforeDelegationSharesModified_call delAddr valbz (Some err)]"
      and "filter is_transfer log = []" and "filter is_store_write log = []"
      by simp_all
  }
  {
    assume get: "GetDelegation k w delAddr valbz = (Inl gerr, w1)"
      and nodel: "errors_Is gerr ErrNoDelegation"
      and enc: "BytesToString k delAddr = Inl encErr"
    from assms get nodel enc
    show "out = Return (NilDec, Some encErr)" and "w' = w1"
      and "log = [StringToBytes_call (GetOperator validator) (Inr valbz),
                   GetDelegation_call delAddr valbz (Inl gerr),
                   BytesToString_call delAddr (Inl encErr)]"
      by (simp_all add: Delegate_def Delegate_delegation_def invoke_def)
  }
  {
    assume get: "GetDelegation k w delAddr valbz = (Inl gerr, w1)"
      and nodel: "errors_Is gerr ErrNoDelegation"
      and enc: "BytesToString k delAddr = Inr str"
      and hook: "BeforeDelegationCreated k w1 delAddr valbz = (hookErr, w2)"
    note block = delegation_created [OF get nodel enc hook, of ?l1 validator]
    from block
    show "Delegate_delegation k (w, [StringToBytes_call (GetOperator validator) (Inr valbz)])
              delAddr valbz validator =
              (Inr (\<lparr>DelegatorAddress = str, ValidatorAddress = GetOperator validator,
                     Shares = LegacyZeroDec\<rparr>, hookErr),
               (w2, [StringToBytes_call (GetOperator validator) (Inr valbz),
                     GetDelegation_call delAddr valbz (Inl gerr),
                     BytesToString_call delAddr (Inr str),
                     BeforeDelegationCreated_call delAddr valbz hookErr]))"
      by (simp add: NewDelegation_def)
    from reach_prefix [OF assms(1,2) block, of bondAmt tokenSrc subtractAccount]
    show "\<exists>rest. log = [StringToBytes_call (GetOperator validator) (Inr valbz),
                            GetDelegation_call delAddr valbz (Inl gerr),
                            BytesToString_call delAddr (Inr str),
                            BeforeDelegationCreated_call delAddr valbz hookErr] @ rest"
      unfolding log by simp
    fix err
    assume err: "hookErr = Some err"
    note stop = prehook_error [OF assms(1,2) block [unfolded err], of bondAmt tokenSrc subtractAccount]
    from stop assms(3) show "out = Return (LegacyZeroDec, Some err)" and "w' = w2"
      and "log = [StringToBytes_call (GetOperator validator) (Inr valbz),
                      GetDelegation_call delAddr valbz (Inl gerr),
                      BytesToString_call delAddr (Inr str),
                      BeforeDelegationCreated_call delAddr valbz (Some err)]"
      and "filter is_transfer log = []" and "filter is_store_write log = []"
      by simp_all
  }
  {
    assume get: "GetDelegation k w delAddr valbz = (Inl gerr, w1)"
      and other: "\<not> errors_Is gerr ErrNoDelegation"
    from assms get other
    show "out = Return (LegacyZeroDec, Some gerr)" and "w' = w1"
      and "log = [StringToBytes_call (GetOperator validator) (Inr valbz),
                   GetDelegation_call delAddr valbz (Inl gerr)]"
      by (simp_all add: Delegate_def Delegate_delegation_def invoke_def)
  }
qed

theorem C5_load_or_create_delegation_witness:
  "\<not> InvalidExRate (testValidator\<lparr>Status := Bonded\<rparr>) \<and>
   StringToBytes failingHookKeeper (GetOperator (testValidator\<lparr>Status := Bonded\<rparr>)) = Inr [1] \<and>
   GetDelegation failingHookKeeper testWorld [2] [1] = (Inl ErrNoDelegation, testWorld) \<and>
   errors_Is ErrNoDelegation ErrNoDelegation \<and>
   BytesToString failingHookKeeper [2] = Inr ''evmos1'' \<and>
   BeforeDelegationCreated failingHookKeeper testWorld [2] [1] =
     (Some (ErrOther ''hook refused''), testWorld) \<and>
   Delegate_delegation failingHookKeeper
     (testWorld, [StringToBytes_call (GetOperator (testValidator\<lparr>Status := Bonded\<rparr>)) (Inr [1])])
     [2] [1] (testValidator\<lparr>Status := Bonded\<rparr>) =
     (Inr (\<lparr>DelegatorAddress = ''evmos1'',
            ValidatorAddress = GetOperator (testValidator\<lparr>Status := Bonded\<rparr>),
            Shares = LegacyZeroDec\<rparr>, Some (ErrOther ''hook refused'')),
      (testWorld,
       [StringToBytes_call (GetOperator (testValidator\<lparr>Status := Bonded\<rparr>)) (Inr [1]),
        GetDelegation_call [2] [1] (Inl ErrNoDelegation),
        BytesToString_call [2] (Inr ''evmos1''),
        BeforeDelegationCreated_call [2] [1] (Some (ErrOther ''hook refused''))])) \<and>
   fst (Delegate failingHookKeeper (testWorld, []) [2] 100 Unbonded
          (testValidator\<lparr>Status := Bonded\<rparr>) True) =
     Return (LegacyZeroDec, Some (ErrOther ''hook refused''))"
proof -
  let ?v = "testValidator\<lparr>Status := Bonded\<rparr>"
  have valid: "\<not> InvalidExRate ?v"
    by (rule test_validator_facts)
  have dec: "StringToBytes failingHookKeeper (GetOperator ?v) = Inr [1]"
    by (simp add: failingHookKeeper_def value_defs test_defs)
  have get: "GetDelegation failingHookKeeper testWorld [2] [1] = (Inl ErrNoDelegation, testWorld)"
    by (simp add: failingHookKeeper_def test_defs)
  have nodel: "errors_Is ErrNoDelegation ErrNoDelegation"
    by simp
  have enc: "BytesToString failingHookKeeper [2] = Inr ''evmos1''"
    by (simp add: failingHookKeeper_def test_defs)
  have hook: "BeforeDelegationCreated failingHookKeeper testWorld [2] [1] =
     (Some (ErrOther ''hook refused''), testWorld)"
    by (simp add: failingHookKeeper_def test_defs)
  from C5_load_or_create_delegation [OF valid dec test_run_hook_refuses,
         where gerr = ErrNoDelegation and ?w1.0 = testWorld and str = "''evmos1''"
           and hookErr = "Some (ErrOther ''hook refused'')" and ?w2.0 = testWorld]
       valid dec get nodel enc hook
  show ?thesis
    by (simp add: test_run_hook_refuses LegacyZeroDec_def)
qed

section \<open>The order of the hooks\<close>

lemma after_hook_follows_store:
  assumes "Delegate k (w, []) delAddr bondAmt tokenSrc validator subtractAccount = (out, (w', log))"
    and "AfterDelegationModified_call a b r \<in> set log"
  shows "\<exists>d. take 2 (rev log) = [AfterDelegationModified_call a b r, SetDelegation_call d None]"
  using assms unfolding Delegate_def invoke_def
  by (auto split: case_splits dest!: delegation_shape tokens_shape shares_shape)

lemma success_ends_with_hook:
  assumes "Delegate k (w, []) delAddr bondAmt tokenSrc validator subtractAccount =
             (Return (sh, None), (w', log))"
  shows "\<exists>b d. take 2 (rev log) =
           [AfterDelegationModified_call delAddr b None, SetDelegation_call d None]"
  using assms unfolding Delegate_def invoke_def
  by (auto split: case_splits dest!: delegation_shape tokens_shape shares_shape)

lemma last_two:
  assumes "take 2 (rev log) = [x, y]"
  shows "log = rev (drop 2 (rev log)) @ [y, x]"
proof -
  have "rev log = [x, y] @ drop 2 (rev log)"
    using assms append_take_drop_id [of 2 "rev log"] by simp
  then have "rev (rev log) = rev ([x, y] @ drop 2 (rev log))"
    by simp
  then show ?thesis
    by simp
qed

lemma first_time_success:
  assumes "\<not> InvalidExRate validator"
    and "StringToBytes k (GetOperator validator) = Inr valbz"
    and "GetDelegation k w delAddr valbz = (Inl gerr, w1)"
    and "Delegate k (w, []) delAddr bondAmt tokenSrc validator subtractAccount =
           (Return (sh, None), (w', log))"
  shows "\<exists>str rest. log = [StringToBytes_call (GetOperator validator) (Inr valbz),
                            GetDelegation_call delAddr valbz (Inl gerr),
                            BytesToString_call delAddr (Inr str)] @
                           BeforeDelegationCreated_call delAddr valbz None # rest"
proof -
  let ?l1 = "[StringToBytes_call (GetOperator validator) (Inr valbz)]"
  have nodel: "errors_Is gerr ErrNoDelegation"
    using assms by (auto simp add: Delegate_def Delegate_delegation_def invoke_def split: if_splits)
  obtain str where enc: "BytesToString k delAddr = Inr str"
    using assms nodel
    by (cases "BytesToString k delAddr")
       (auto simp add: Delegate_def Delegate_delegation_def invoke_def)
  obtain hookErr w2 where hook: "BeforeDelegationCreated k w1 delAddr valbz = (hookErr, w2)"
    by (cases "BeforeDelegationCreated k w1 delAddr valbz")
  note block = delegation_created [OF assms(3) nodel enc hook, of ?l1 validator]
  have none: "hookErr = None"
    using prehook_error [OF assms(1,2), of w delAddr _ _ w2 _ bondAmt tokenSrc subtractAccount]
      block assms(4)
    by (cases hookErr) auto
  from reach_prefix [OF assms(1,2) block, of bondAmt tokenSrc subtractAccount] assms(4) none
  show ?thesis
    by auto
qed

text \<open>
  Claim C6. In a successful run for a delegator without a delegation (the exchange rate
  is valid, the operator address decodes, the lookup returns an error), the log starts with
  the decoding, the lookup and the encoding, none of them a transfer, and then
  \<open>BeforeDelegationCreated\<close>: every transfer comes later. In every run, a call of
  \<open>AfterDelegationModified\<close> is the last event of the log and the event before it is a
  \<open>SetDelegation\<close> that returned no error. Every successful run ends with that pair.
  The hooks do fire: when the lookup returns \<open>ErrNoDelegation\<close> and the delegator address
  encodes, \<open>BeforeDelegationCreated\<close> is the fourth call of the run; and when minting and
  \<open>SetDelegation\<close> have succeeded, \<open>AfterDelegationModified\<close> is the call that follows them.
\<close>

theorem C6_hook_ordering:
  assumes "Delegate k (w, []) delAddr bondAmt tokenSrc validator subtractAccount = (out, (w', log))"
  shows "(\<not> InvalidExRate validator \<and> StringToBytes k (GetOperator validator) = Inr valbz \<and>
          GetDelegation k w delAddr valbz = (Inl gerr, w1) \<and> (\<exists>sh. out = Return (sh, None)) \<longrightarrow>
            (\<exists>pre rest. log = pre @ BeforeDelegationCreated_call delAddr valbz None # rest \<and>
                         filter is_transfer pre = [] \<and> length pre = 3))
       \<and> (\<forall>a b r. AfterDelegationModified_call a b r \<in> set log \<longrightarrow>
            (\<exists>pre d. log = pre @ [SetDelegation_call d None, AfterDelegationModified_call a b r]))
       \<and> ((\<exists>sh. out = Return (sh, None)) \<longrightarrow>
            (\<exists>pre d b. log = pre @ [SetDelegation_call d None,
                                     AfterDelegationModified_call delAddr b None]))
       \<and> (\<not> InvalidExRate validator \<and> StringToBytes k (GetOperator validator) = Inr valbz \<and>
          GetDelegation k w delAddr valbz = (Inl gerr, w1) \<and> errors_Is gerr ErrNoDelegation \<and>
          BytesToString k delAddr = Inr str \<and>
          BeforeDelegationCreated k w1 delAddr valbz = (hookErr, w2) \<longrightarrow>
            (\<exists>rest. log = [StringToBytes_call (GetOperator validator) (Inr valbz),
                            GetDelegation_call delAddr valbz (Inl gerr),
                            BytesToString_call delAddr (Inr str)] @
                           BeforeDelegationCreated_call delAddr valbz hookErr # rest))
       \<and> (\<not> InvalidExRate validator \<and> StringToBytes k (GetOperator validator) = Inr valbz \<and>
          Delegate_delegation k (w, [StringToBytes_call (GetOperator validator) (Inr valbz)])
            delAddr valbz validator = (Inr (delegation, None), (w2, l2)) \<and>
          Delegate_tokens k (w2, l2) delAddr bondAmt tokenSrc validator subtractAccount =
            (Return None, (w3, l3)) \<and>
          AddValidatorTokensAndShares k w3 validator bondAmt = ((valOut, Dec n, None), w4) \<and>
          Shares delegation = Dec m \<and> \<bar>m + n\<bar> < 2 ^ maxDecBitLen \<and>
          SetDelegation k w4 (delegation\<lparr>Shares := Dec (m + n)\<rparr>) = (None, w5) \<and>
          AfterDelegationModified k w5 delAddr valbz = (postErr, w6) \<longrightarrow>
            log = l3 @ [AddValidatorTokensAndShares_call validator bondAmt (valOut, Dec n, None),
                        SetDelegation_call (delegation\<lparr>Shares := Dec (m + n)\<rparr>) None,
                        AfterDelegationModified_call delAddr valbz postErr])"
proof (intro conjI impI allI; (elim conjE exE)?)
  assume valid: "\<not> InvalidExRate validator"
    and dec: "StringToBytes k (GetOperator validator) = Inr valbz"
    and get: "GetDelegation k w delAddr valbz = (Inl gerr, w1)"
    and nodel: "errors_Is gerr ErrNoDelegation"
    and enc: "BytesToString k delAddr = Inr str"
    and hook: "BeforeDelegationCreated k w1 delAddr valbz = (hookErr, w2)"
  note block = delegation_created [OF get nodel enc hook,
      of "[StringToBytes_call (GetOperator validator) (Inr valbz)]" validator]
  from reach_prefix [OF valid dec block, of bondAmt tokenSrc subtractAccount] assms
  show "\<exists>rest. log = [StringToBytes_call (GetOperator validator) (Inr valbz),
                            GetDelegation_call delAddr valbz (Inl gerr),
                            BytesToString_call delAddr (Inr str)] @
                           BeforeDelegationCreated_call delAddr valbz hookErr # rest"
    by simp
next
  assume valid: "\<not> InvalidExRate validator"
    and dec: "StringToBytes k (GetOperator validator) = Inr valbz"
    and deleg: "Delegate_delegation k (w, [StringToBytes_call (GetOperator validator) (Inr valbz)])
            delAddr valbz validator = (Inr (delegation, None), (w2, l2))"
    and tokens: "Delegate_tokens k (w2, l2) delAddr bondAmt tokenSrc validator subtractAccount =
            (Return None, (w3, l3))"
    and mint: "AddValidatorTokensAndShares k w3 validator bondAmt = ((valOut, Dec n, None), w4)"
    and shares: "Shares delegation = Dec m"
    and range: "\<bar>m + n\<bar> < 2 ^ maxDecBitLen"
    and store: "SetDelegation k w4 (delegation\<lparr>Shares := Dec (m + n)\<rparr>) = (None, w5)"
    and post: "AfterDelegationModified k w5 delAddr valbz = (postErr, w6)"
  from assms
  show "log = l3 @ [AddValidatorTokensAndShares_call validator bondAmt (valOut, Dec n, None),
                        SetDelegation_call (delegation\<lparr>Shares := Dec (m + n)\<rparr>) None,
                        AfterDelegationModified_call delAddr valbz postErr]"
    by (simp add: reach_tokens [OF valid dec deleg] tokens
          shares_run [OF mint shares range store post])
next
  fix sh
  assume "\<not> InvalidExRate validator" and "StringToBytes k (GetOperator validator) = Inr valbz"
    and "GetDelegation k w delAddr valbz = (Inl gerr, w1)" and "out = Return (sh, None)"
  from first_time_success [OF this(1-3) assms [unfolded this(4)]]
  obtain str rest where
    "log = [StringToBytes_call (GetOperator validator) (Inr valbz),
            GetDelegation_call delAddr valbz (Inl gerr),
            BytesToString_call delAddr (Inr str)] @
           BeforeDelegationCreated_call delAddr valbz None # rest"
    by blast
  then have "log = [StringToBytes_call (GetOperator validator) (Inr valbz),
            GetDelegation_call delAddr valbz (Inl gerr),
            BytesToString_call delAddr (Inr str)] @
           BeforeDelegationCreated_call delAddr valbz None # rest \<and>
         filter is_transfer [StringToBytes_call (GetOperator validator) (Inr valbz),
            GetDelegation_call delAddr valbz (Inl gerr),
            BytesToString_call delAddr (Inr str)] = [] \<and>
         length [StringToBytes_call (GetOperator validator) (Inr valbz),
            GetDelegation_call delAddr valbz (Inl gerr),
            BytesToString_call delAddr (Inr str)] = 3"
    by simp
  then show "\<exists>pre rest. log = pre @ BeforeDelegationCreated_call delAddr valbz None # rest \<and>
                         filter is_transfer pre = [] \<and> length pre = 3"
    by blast
next
  fix a b r
  assume "AfterDelegationModified_call a b r \<in> set log"
  from after_hook_follows_store [OF assms this]
  obtain d where
    "take 2 (rev log) = [AfterDelegationModified_call a b r, SetDelegation_call d None]"
    by blast
  then have "log = rev (drop 2 (rev log)) @
      [SetDelegation_call d None, AfterDelegationModified_call a b r]"
    by (rule last_two)
  then show "\<exists>pre d. log = pre @ [SetDelegation_call d None, AfterDelegationModified_call a b r]"
    by blast
next
  fix sh
  assume "out = Return (sh, None)"
  from success_ends_with_hook [OF assms [unfolded this]]
  obtain b d where
    "take 2 (rev log) = [AfterDelegationModified_call delAddr b None, SetDelegation_call d None]"
    by blast
  then have "log = rev (drop 2 (rev log)) @
      [SetDelegation_call d None, AfterDelegationModified_call delAddr b None]"
    by (rule last_two)
  then show "\<exists>pre d b. log = pre @ [SetDelegation_call d None,
                                     AfterDelegationModified_call delAddr b None]"
    by blast
qed

theorem C6_hook_ordering_witness:
  "\<not> InvalidExRate (testValidator\<lparr>Status := Bonded\<rparr>) \<and>
   StringToBytes testKeeper (GetOperator (testValidator\<lparr>Status := Bonded\<rparr>)) = Inr [1] \<and>
   GetDelegation testKeeper testWorld [2] [1] = (Inl ErrNoDelegation, testWorld) \<and>
   (\<exists>pre rest.
      snd (snd (Delegate testKeeper (testWorld, []) [2] 100 Unbonded
                  (testValidator\<lparr>Status := Bonded\<rparr>) True)) =
        pre @ BeforeDelegationCreated_call [2] [1] None # rest \<and>
      filter is_transfer pre = [] \<and> length pre = 3) \<and>
   (\<exists>pre d.
      snd (snd (Delegate testKeeper (testWorld, []) [2] 100 Unbonded
                  (testValidator\<lparr>Status := Bonded\<rparr>) True)) =
        pre @ [SetDelegation_call d None, AfterDelegationModified_call [2] [1] None])"
proof -
  let ?v = "testValidator\<lparr>Status := Bonded\<rparr>"
  have valid: "\<not> InvalidExRate ?v"
    by (rule test_validator_facts)
  have dec: "StringToBytes testKeeper (GetOperator ?v) = Inr [1]"
    by (simp add: test_validator_facts)
  have get: "GetDelegation testKeeper testWorld [2] [1] = (Inl ErrNoDelegation, testWorld)"
    by (simp add: test_defs)
  have in_log: "AfterDelegationModified_call [2] [1] None \<in>
      set (snd (snd (Delegate testKeeper (testWorld, []) [2] 100 Unbonded ?v True)))"
    by (simp add: test_run_direct)
  from C6_hook_ordering [OF test_run_direct,
         where valbz = "[1]" and gerr = ErrNoDelegation and ?w1.0 = testWorld]
       valid dec get in_log
  show ?thesis
    unfolding test_run_direct snd_conv by blast
qed

section \<open>Minting, persisting, and the hook after\<close>



section \<open>The branches that move nothing\<close>

lemma noop_no_transfer:
  assumes "tokenSrc = Bonded \<and> IsBonded validator
           \<or> (tokenSrc = Unbonded \<or> tokenSrc = Unbonding) \<and> \<not> IsBonded validator"
    and "Delegate k (w, []) delAddr bondAmt tokenSrc validator False = (out, (w', log))"
  shows "filter is_transfer log = [] \<and> (\<forall>r. BondDenom_call r \<notin> set log)"
  using assms unfolding Delegate_def invoke_def
  by (auto simp add: Delegate_tokens_def split: case_splits
           dest!: delegation_shape shares_shape)

text \<open>
  Claim C8. Take a call with \<open>subtractAccount = False\<close> in which the token source is
  \<open>Bonded\<close> and the validator is bonded, or the token source is \<open>Unbonded\<close> or \<open>Unbonding\<close>
  and the validator is not bonded. Whatever the collaborators do, the call makes no
  transfer and does not even read the bonding denomination; the movement of tokens
  returns at once in the state it was entered in; and when the delegation block has handed
  over a delegation with no hook error, the call is the minting of shares started in the
  very state that block left.
\<close>

theorem C8_no_transfer_branches:
  assumes "tokenSrc = Bonded \<and> IsBonded validator
           \<or> (tokenSrc = Unbonded \<or> tokenSrc = Unbonding) \<and> \<not> IsBonded validator"
    and "Delegate k (w, []) delAddr bondAmt tokenSrc validator False = (out, (w', log))"
  shows "filter is_transfer log = [] \<and>
         (\<forall>r. BondDenom_call r \<notin> set log) \<and>
         Delegate_tokens k s delAddr bondAmt tokenSrc validator False = (Return None, s) \<and>
         (\<not> InvalidExRate validator \<and>
          StringToBytes k (GetOperator validator) = Inr valbz \<and>
          Delegate_delegation k (w, [StringToBytes_call (GetOperator validator) (Inr valbz)])
            delAddr valbz validator = (Inr (delegation, None), (w2, l2)) \<longrightarrow>
            (out, (w', log)) = Delegate_shares k (w2, l2) delAddr valbz bondAmt validator delegation)"
proof -
  have tokens: "\<And>s. Delegate_tokens k s delAddr bondAmt tokenSrc validator False = (Return None, s)"
    using assms(1) by (auto simp add: Delegate_tokens_def)
  have "\<not> InvalidExRate validator \<Longrightarrow>
        StringToBytes k (GetOperator validator) = Inr valbz \<Longrightarrow>
        Delegate_delegation k (w, [StringToBytes_call (GetOperator validator) (Inr valbz)])
          delAddr valbz validator = (Inr (delegation, None), (w2, l2)) \<Longrightarrow>
        (out, (w', log)) = Delegate_shares k (w2, l2) delAddr valbz bondAmt validator delegation"
    using assms(2) by (simp add: reach_tokens tokens)
  with noop_no_transfer [OF assms] tokens show ?thesis
    by blast
qed

theorem C8_no_transfer_branches_witness:
  "IsBonded (testValidator\<lparr>Status := Bonded\<rparr>) \<and>
   \<not> InvalidExRate (testValidator\<lparr>Status := Bonded\<rparr>) \<and>
   StringToBytes testKeeper (GetOperator (testValidator\<lparr>Status := Bonded\<rparr>)) = Inr [1] \<and>
   filter is_transfer
     (snd (snd (Delegate testKeeper (testWorld, []) [2] 50 Bonded
                  (testValidator\<lparr>Status := Bonded\<rparr>) False))) = [] \<and>
   Delegate_tokens testKeeper (testWorld, []) [2] 50 Bonded (testValidator\<lparr>Status := Bonded\<rparr>) False =
     (Return None, (testWorld, [])) \<and>
   Delegate testKeeper (testWorld, []) [2] 50 Bonded (testValidator\<lparr>Status := Bonded\<rparr>) False =
     Delegate_shares testKeeper
       (testWorld,
        [StringToBytes_call ''evmosvaloper1'' (Inr [1]),
         GetDelegation_call [2] [1] (Inl ErrNoDelegation),
         BytesToString_call [2] (Inr ''evmos1''),
         BeforeDelegationCreated_call [2] [1] None])
       [2] [1] 50 (testValidator\<lparr>Status := Bonded\<rparr>)
       \<lparr>DelegatorAddress = ''evmos1'', ValidatorAddress = ''evmosvaloper1'', Shares = Dec 0\<rparr>"
proof -
  have h: "Bonded = Bonded \<and> IsBonded (testValidator\<lparr>Status := Bonded\<rparr>)"
    by (simp add: test_validator_facts)
  have dec: "StringToBytes testKeeper (GetOperator (testValidator\<lparr>Status := Bonded\<rparr>)) = Inr [1]"
    by (simp add: test_validator_facts)
  have deleg: "Delegate_delegation testKeeper
      (testWorld, [StringToBytes_call (GetOperator (testValidator\<lparr>Status := Bonded\<rparr>)) (Inr [1])])
      [2] [1] (testValidator\<lparr>Status := Bonded\<rparr>) =
      (Inr (\<lparr>DelegatorAddress = ''evmos1'', ValidatorAddress = ''evmosvaloper1'',
             Shares = Dec 0\<rparr>, None),
       (testWorld,
        [StringToBytes_call ''evmosvaloper1'' (Inr [1]),
         GetDelegation_call [2] [1] (Inl ErrNoDelegation),
         BytesToString_call [2] (Inr ''evmos1''),
         BeforeDelegationCreated_call [2] [1] None]))"
    by (simp add: test_validator_facts test_delegation_created)
  note run = C8_no_transfer_branches [OF disjI1 [OF h] test_run_noop,
      of "(testWorld, [])" "[1]"
         "\<lparr>DelegatorAddress = ''evmos1'', ValidatorAddress = ''evmosvaloper1'', Shares = Dec 0\<rparr>"
         testWorld
         "[StringToBytes_call ''evmosvaloper1'' (Inr [1]),
           GetDelegation_call [2] [1] (Inl ErrNoDelegation),
           BytesToString_call [2] (Inr ''evmos1''),
           BeforeDelegationCreated_call [2] [1] None]"]
  from run dec deleg test_validator_facts(1) [of Bonded]
  have "Delegate testKeeper (testWorld, []) [2] 50 Bonded (testValidator\<lparr>Status := Bonded\<rparr>) False =
     Delegate_shares testKeeper
       (testWorld,
        [StringToBytes_call ''evmosvaloper1'' (Inr [1]),
         GetDelegation_call [2] [1] (Inl ErrNoDelegation),
         BytesToString_call [2] (Inr ''evmos1''),
         BeforeDelegationCreated_call [2] [1] None])
       [2] [1] 50 (testValidator\<lparr>Status := Bonded\<rparr>)
       \<lparr>DelegatorAddress = ''evmos1'', ValidatorAddress = ''evmosvaloper1'', Shares = Dec 0\<rparr>"
    unfolding test_run_noop by blast
  moreover from run h dec test_validator_facts(1) [of Bonded]
  have "IsBonded (testValidator\<lparr>Status := Bonded\<rparr>) \<and>
   \<not> InvalidExRate (testValidator\<lparr>Status := Bonded\<rparr>) \<and>
   StringToBytes testKeeper (GetOperator (testValidator\<lparr>Status := Bonded\<rparr>)) = Inr [1] \<and>
   filter is_transfer
     (snd (snd (Delegate testKeeper (testWorld, []) [2] 50 Bonded
                  (testValidator\<lparr>Status := Bonded\<rparr>) False))) = [] \<and>
   Delegate_tokens testKeeper (testWorld, []) [2] 50 Bonded (testValidator\<lparr>Status := Bonded\<rparr>) False =
     (Return None, (testWorld, []))"
    unfolding test_run_noop by simp
  ultimately show ?thesis
    by blast
qed

section \<open>Delegating nothing\<close>

lemma zero_tokens_moved:
  assumes "subtractAccount \<and> tokenSrc \<noteq> Bonded \<and> Status validator \<in> {Bonded, Unbonding, Unbonded}
           \<or> \<not> subtractAccount \<and> tokenSrc \<in> {Bonded, Unbonding, Unbonded}"
    and "fst (BondDenom k w2) = Inr denom"
    and "NewCoins k denom 0 = Return coins"
    and "\<forall>pool. fst (DelegateCoinsFromAccountToModule k (snd (BondDenom k w2)) delAddr pool coins) = None"
    and "\<forall>sender recipient.
           fst (SendCoinsFromModuleToModule k (snd (BondDenom k w2)) sender recipient coins) = None"
  shows "\<exists>w3 rest. Delegate_tokens k (w2, l2) delAddr 0 tokenSrc validator subtractAccount =
           (Return None, (w3, l2 @ rest)) \<and> filter is_store_write rest = []"
  using assms
  by (cases "Status validator"; cases tokenSrc)
     (auto simp add: Delegate_tokens_def notBondedTokensToBonded_def bondedTokensToNotBonded_def
        invoke_def case_prod_beta IsBonded_def IsUnbonding_def IsUnbonded_def)

lemma zero_shares_minted:
  assumes "\<forall>w'. \<exists>valOut. fst (AddValidatorTokensAndShares k w' validator 0) =
             (valOut, Dec (SharesFromTokens validator 0), None) \<and>
             Tokens valOut = Tokens validator + 0 \<and>
             DelegatorShares valOut = DelegatorShares validator + SharesFromTokens validator 0"
    and "Shares delegation = Dec m"
    and "\<bar>m\<bar> < 2 ^ maxDecBitLen"
    and "\<forall>w' d. fst (SetDelegation k w' d) = None"
    and "\<forall>w'. fst (AfterDelegationModified k w' delAddr valbz) = None"
  shows "\<exists>w4 valOut. Delegate_shares k (w3, l3) delAddr valbz 0 validator delegation =
           (Return (Dec 0, None),
            (w4, l3 @ [AddValidatorTokensAndShares_call validator 0 (valOut, Dec 0, None),
                       SetDelegation_call (delegation\<lparr>Shares := Dec m\<rparr>) None,
                       AfterDelegationModified_call delAddr valbz None])) \<and>
           Tokens valOut = Tokens validator \<and> DelegatorShares valOut = DelegatorShares validator"
proof -
  from assms(1) obtain valOut where
    mint: "fst (AddValidatorTokensAndShares k w3 validator 0) = (valOut, Dec 0, None)"
    and totals: "Tokens valOut = Tokens validator" "DelegatorShares valOut = DelegatorShares validator"
    by (auto simp add: SharesFromTokens_def)
  from mint assms(2-5) have
    "Delegate_shares k (w3, l3) delAddr valbz 0 validator delegation =
       (Return (Dec 0, None),
        (snd (AfterDelegationModified k
                (snd (SetDelegation k (snd (AddValidatorTokensAndShares k w3 validator 0))
                        (delegation\<lparr>Shares := Dec m\<rparr>))) delAddr valbz),
         l3 @ [AddValidatorTokensAndShares_call validator 0 (valOut, Dec 0, None),
               SetDelegation_call (delegation\<lparr>Shares := Dec m\<rparr>) None,
               AfterDelegationModified_call delAddr valbz None]))"
    by (simp add: Delegate_shares_def invoke_def case_prod_beta)
  with totals show ?thesis
    by blast
qed

text \<open>
  Claim C9, as amended. Let the validator's exchange rate be valid and the combination of
  token source and \<open>subtractAccount\<close> be legal. A call with \<open>bondAmt = 0\<close> returns
  \<open>(Dec 0, nil)\<close>, and the one minting call it makes returns a validator whose token and
  share totals are those of the snapshot, provided the collaborators it calls succeed: the
  operator address decodes; the delegation block hands over a delegation (of non-nil
  shares in the range of the decimal type) with no hook error; the bonding denomination
  is read, the coins of the amount 0 are built and the bank keeper accepts their
  transfer; minting follows its contract (it issues \<open>amount / rate\<close> shares and adds
  the amount and the issued shares to the validator's totals); \<open>SetDelegation\<close> and
  \<open>AfterDelegationModified\<close> return no error.
\<close>

theorem C9_zero_amount_delegation:
  assumes "\<not> InvalidExRate validator"
    and "subtractAccount \<and> tokenSrc \<noteq> Bonded \<and> Status validator \<in> {Bonded, Unbonding, Unbonded}
         \<or> \<not> subtractAccount \<and> tokenSrc \<in> {Bonded, Unbonding, Unbonded}"
    and "StringToBytes k (GetOperator validator) = Inr valbz"
    and "Delegate_delegation k (w, [StringToBytes_call (GetOperator validator) (Inr valbz)])
           delAddr valbz validator = (Inr (delegation, None), (w2, l2))"
    and "Shares delegation = Dec m"
    and "\<bar>m\<bar> < 2 ^ maxDecBitLen"
    and "fst (BondDenom k w2) = Inr denom"
    and "NewCoins k denom 0 = Return coins"
    and "\<forall>pool. fst (DelegateCoinsFromAccountToModule k (snd (BondDenom k w2)) delAddr pool coins) = None"
    and "\<forall>sender recipient.
           fst (SendCoinsFromModuleToModule k (snd (BondDenom k w2)) sender recipient coins) = None"
    and "\<forall>w'. \<exists>valOut. fst (AddValidatorTokensAndShares k w' validator 0) =
             (valOut, Dec (SharesFromTokens validator 0), None) \<and>
             Tokens valOut = Tokens validator + 0 \<and>
             DelegatorShares valOut = DelegatorShares validator + SharesFromTokens validator 0"
    and "\<forall>w' d. fst (SetDelegation k w' d) = None"
    and "\<forall>w'. fst (AfterDelegationModified k w' delAddr valbz) = None"
  shows "\<exists>w' tokenCalls valOut.
           Delegate k (w, []) delAddr 0 tokenSrc validator subtractAccount =
             (Return (Dec 0, None),
              (w', l2 @ tokenCalls @
                   [AddValidatorTokensAndShares_call validator 0 (valOut, Dec 0, None),
                    SetDelegation_call (delegation\<lparr>Shares := Dec m\<rparr>) None,
                    AfterDelegationModified_call delAddr valbz None])) \<and>
           filter is_store_write tokenCalls = [] \<and>
           Tokens valOut = Tokens validator \<and> DelegatorShares valOut = DelegatorShares validator"
proof -
  from zero_tokens_moved [OF assms(2) assms(7-10), of l2]
  obtain w3 rest where
    tokens: "Delegate_tokens k (w2, l2) delAddr 0 tokenSrc validator subtractAccount =
               (Return None, (w3, l2 @ rest))"
    and quiet: "filter is_store_write rest = []"
    by blast
  from zero_shares_minted [OF assms(11) assms(5,6) assms(12,13), of w3 "l2 @ rest"]
  obtain w4 valOut where
    "Delegate_shares k (w3, l2 @ rest) delAddr valbz 0 validator delegation =
       (Return (Dec 0, None),
        (w4, (l2 @ rest) @ [AddValidatorTokensAndShares_call validator 0 (valOut, Dec 0, None),
                   SetDelegation_call (delegation\<lparr>Shares := Dec m\<rparr>) None,
                   AfterDelegationModified_call delAddr valbz None]))"
    and "Tokens valOut = Tokens validator" and "DelegatorShares valOut = DelegatorShares validator"
    by blast
  with tokens quiet show ?thesis
    by (simp add: reach_tokens [OF assms(1,3,4)])
qed

text \<open>
  The claim as first stated, that every such call succeeds, fails as soon as a collaborator
  refuses: here the hook before the creation of the delegation returns an error, and the
  call with the amount 0 returns that error.
\<close>

theorem C9_counterexample:
  "\<not> InvalidExRate (testValidator\<lparr>Status := Bonded\<rparr>) \<and>
   Unbonded \<noteq> Bonded \<and> Status (testValidator\<lparr>Status := Bonded\<rparr>) \<in> {Bonded, Unbonding, Unbonded} \<and>
   Delegate failingHookKeeper (testWorld, []) [2] 0 Unbonded
     (testValidator\<lparr>Status := Bonded\<rparr>) True =
     (Return (Dec 0, Some (ErrOther ''hook refused'')),
      (testWorld,
       [StringToBytes_call ''evmosvaloper1'' (Inr [1]),
        GetDelegation_call [2] [1] (Inl ErrNoDelegation),
        BytesToString_call [2] (Inr ''evmos1''),
        BeforeDelegationCreated_call [2] [1] (Some (ErrOther ''hook refused''))]))"
  by (simp add: test_run_hook_refuses test_validator_facts)

theorem C9_zero_amount_delegation_witness:
  "\<not> InvalidExRate (testValidator\<lparr>Status := Bonded\<rparr>) \<and>
   Unbonded \<noteq> Bonded \<and> Status (testValidator\<lparr>Status := Bonded\<rparr>) \<in> {Bonded, Unbonding, Unbonded} \<and>
   StringToBytes testKeeper (GetOperator (testValidator\<lparr>Status := Bonded\<rparr>)) = Inr [1] \<and>
   fst (BondDenom testKeeper testWorld) = Inr ''aevmos'' \<and>
   NewCoins testKeeper ''aevmos'' 0 = Return [] \<and>
   fst (Delegate testKeeper (testWorld, []) [2] 0 Unbonded
          (testValidator\<lparr>Status := Bonded\<rparr>) True) = Return (Dec 0, None)"
proof -
  let ?v = "testValidator\<lparr>Status := Bonded\<rparr>"
  let ?d = "\<lparr>DelegatorAddress = ''evmos1'', ValidatorAddress = ''evmosvaloper1'', Shares = Dec 0\<rparr>"
  have valid: "\<not> InvalidExRate ?v"
    by (rule test_validator_facts)
  have legal: "True \<and> Unbonded \<noteq> Bonded \<and> Status ?v \<in> {Bonded, Unbonding, Unbonded}"
    by simp
  have dec: "StringToBytes testKeeper (GetOperator ?v) = Inr [1]"
    by (simp add: test_validator_facts)
  have deleg: "Delegate_delegation testKeeper
      (testWorld, [StringToBytes_call (GetOperator ?v) (Inr [1])]) [2] [1] ?v =
      (Inr (?d, None),
       (testWorld,
        [StringToBytes_call ''evmosvaloper1'' (Inr [1]),
         GetDelegation_call [2] [1] (Inl ErrNoDelegation),
         BytesToString_call [2] (Inr ''evmos1''),
         BeforeDelegationCreated_call [2] [1] None]))"
    by (simp add: test_validator_facts test_delegation_created)
  have shares: "Shares ?d = Dec 0"
    by simp
  have range: "\<bar>0\<bar> < (2::int) ^ maxDecBitLen"
    by simp
  have denom: "fst (BondDenom testKeeper testWorld) = Inr ''aevmos''"
    by (simp add: test_defs)
  have coins: "NewCoins testKeeper ''aevmos'' 0 = Return []"
    by (simp add: test_defs)
  have bank1: "\<forall>pool. fst (DelegateCoinsFromAccountToModule testKeeper
      (snd (BondDenom testKeeper testWorld)) [2] pool []) = None"
    by (simp add: test_defs)
  have bank2: "\<forall>sender recipient. fst (SendCoinsFromModuleToModule testKeeper
      (snd (BondDenom testKeeper testWorld)) sender recipient []) = None"
    by (simp add: test_defs)
  have mint: "\<forall>w'. \<exists>valOut. fst (AddValidatorTokensAndShares testKeeper w' ?v 0) =
      (valOut, Dec (SharesFromTokens ?v 0), None) \<and>
      Tokens valOut = Tokens ?v + 0 \<and>
      DelegatorShares valOut = DelegatorShares ?v + SharesFromTokens ?v 0"
    by (simp add: test_defs SharesFromTokens_def)
  have store: "\<forall>w' d. fst (SetDelegation testKeeper w' d) = None"
    by (simp add: test_defs)
  have hook: "\<forall>w'. fst (AfterDelegationModified testKeeper w' [2] [1]) = None"
    by (simp add: test_defs)
  from C9_zero_amount_delegation
         [OF valid disjI1 [OF legal] dec deleg shares range denom coins bank1 bank2 mint store hook]
  have "fst (Delegate testKeeper (testWorld, []) [2] 0 Unbonded ?v True) = Return (Dec 0, None)"
    by auto
  with valid dec denom coins show ?thesis
    by simp
qed

section \<open>The decimal returned with an error\<close>

lemma early_errors:
  assumes "\<not> InvalidExRate validator"
  shows "StringToBytes k (GetOperator validator) = Inl err \<Longrightarrow>
           fst (Delegate k (w, []) delAddr bondAmt tokenSrc validator subtractAccount) =
             Return (LegacyZeroDec, Some err)"
    and "StringToBytes k (GetOperator validator) = Inr valbz \<Longrightarrow>
         GetDelegation k w delAddr valbz = (Inl err, w1) \<Longrightarrow> \<not> errors_Is err ErrNoDelegation \<Longrightarrow>
           fst (Delegate k (w, []) delAddr bondAmt tokenSrc validator subtractAccount) =
             Return (LegacyZeroDec, Some err)"
    and "StringToBytes k (GetOperator validator) = Inr valbz \<Longrightarrow>
         GetDelegation k w delAddr valbz = (Inr found, w1) \<Longrightarrow>
         BeforeDelegationSharesModified k w1 delAddr valbz = (Some err, w2) \<Longrightarrow>
           fst (Delegate k (w, []) delAddr bondAmt tokenSrc validator subtractAccount) =
             Return (LegacyZeroDec, Some err)"
    and "StringToBytes k (GetOperator validator) = Inr valbz \<Longrightarrow>
         GetDelegation k w delAddr valbz = (Inl gerr, w1) \<Longrightarrow> errors_Is gerr ErrNoDelegation \<Longrightarrow>
         BytesToString k delAddr = Inr str \<Longrightarrow>
         BeforeDelegationCreated k w1 delAddr valbz = (Some err, w2) \<Longrightarrow>
           fst (Delegate k (w, []) delAddr bondAmt tokenSrc validator subtractAccount) =
             Return (LegacyZeroDec, Some err)"
    and "StringToBytes k (GetOperator validator) = Inr valbz \<Longrightarrow>
         GetDelegation k w delAddr valbz = (Inl gerr, w1) \<Longrightarrow> errors_Is gerr ErrNoDelegation \<Longrightarrow>
         BytesToString k delAddr = Inl err \<Longrightarrow>
           fst (Delegate k (w, []) delAddr bondAmt tokenSrc validator subtractAccount) =
             Return (NilDec, Some err)"
  using assms by (simp_all add: Delegate_def Delegate_delegation_def invoke_def)

lemma token_errors:
  assumes "\<not> InvalidExRate validator"
    and "StringToBytes k (GetOperator validator) = Inr valbz"
    and "Delegate_delegation k (w, [StringToBytes_call (GetOperator validator) (Inr valbz)])
           delAddr valbz validator = (Inr (delegation, None), (w2, l2))"
  shows "subtractAccount \<and> tokenSrc \<noteq> Bonded \<and> Status validator \<in> {Bonded, Unbonding, Unbonded}
         \<or> \<not> subtractAccount \<and> (tokenSrc = Unbonded \<or> tokenSrc = Unbonding) \<and> IsBonded validator
         \<or> \<not> subtractAccount \<and> tokenSrc = Bonded \<and> \<not> IsBonded validator \<Longrightarrow>
         BondDenom k w2 = (Inl err, w3) \<Longrightarrow>
           fst (Delegate k (w, []) delAddr bondAmt tokenSrc validator subtractAccount) =
             Return (NilDec, Some err)"
    and "subtractAccount \<and> tokenSrc \<noteq> Bonded \<and>
           (Status validator = Bonded \<and> pool = BondedPoolName
            \<or> (Status validator = Unbonding \<or> Status validator = Unbonded) \<and>
               pool = NotBondedPoolName) \<Longrightarrow>
         BondDenom k w2 = (Inr denom, w3) \<Longrightarrow> NewCoins k denom bondAmt = Return coins \<Longrightarrow>
         DelegateCoinsFromAccountToModule k w3 delAddr pool coins = (Some err, w4) \<Longrightarrow>
           fst (Delegate k (w, []) delAddr bondAmt tokenSrc validator subtractAccount) =
             Return (NilDec, Some err)"
    and "\<not> subtractAccount \<and>
           ((tokenSrc = Unbonded \<or> tokenSrc = Unbonding) \<and> IsBonded validator \<and>
              sender = NotBondedPoolName \<and> recipient = BondedPoolName
            \<or> tokenSrc = Bonded \<and> \<not> IsBonded validator \<and>
              sender = BondedPoolName \<and> recipient = NotBondedPoolName) \<Longrightarrow>
         BondDenom k w2 = (Inr denom, w3) \<Longrightarrow> NewCoins k denom bondAmt = Return coins \<Longrightarrow>
         SendCoinsFromModuleToModule k w3 sender recipient coins = (Some err, w4) \<Longrightarrow>
           fst (Delegate k (w, []) delAddr bondAmt tokenSrc validator subtractAccount) =
             Return (NilDec, Some err)"
  by (auto simp add: reach_tokens [OF assms] Delegate_tokens_def notBondedTokensToBonded_def
        bondedTokensToNotBonded_def invoke_def IsBonded_def IsUnbonding_def IsUnbonded_def)

lemma share_errors:
  assumes "\<not> InvalidExRate validator"
    and "StringToBytes k (GetOperator validator) = Inr valbz"
    and "Delegate_delegation k (w, [StringToBytes_call (GetOperator validator) (Inr valbz)])
           delAddr valbz validator = (Inr (delegation, None), (w2, l2))"
    and "Delegate_tokens k (w2, l2) delAddr bondAmt tokenSrc validator subtractAccount =
           (Return None, (w3, l3))"
  shows "AddValidatorTokensAndShares k w3 validator bondAmt = ((valOut, newShares, Some err), w4) \<Longrightarrow>
           fst (Delegate k (w, []) delAddr bondAmt tokenSrc validator subtractAccount) =
             Return (newShares, Some err)"
    and "AddValidatorTokensAndShares k w3 validator bondAmt = ((valOut, newShares, None), w4) \<Longrightarrow>
         LegacyDec_Add (Shares delegation) newShares = Return sharesOut \<Longrightarrow>
         SetDelegation k w4 (delegation\<lparr>Shares := sharesOut\<rparr>) = (Some err, w5) \<Longrightarrow>
           fst (Delegate k (w, []) delAddr bondAmt tokenSrc validator subtractAccount) =
             Return (newShares, Some err)"
    and "AddValidatorTokensAndShares k w3 validator bondAmt = ((valOut, newShares, None), w4) \<Longrightarrow>
         LegacyDec_Add (Shares delegation) newShares = Return sharesOut \<Longrightarrow>
         SetDelegation k w4 (delegation\<lparr>Shares := sharesOut\<rparr>) = (None, w5) \<Longrightarrow>
         AfterDelegationModified k w5 delAddr valbz = (Some err, w6) \<Longrightarrow>
           fst (Delegate k (w, []) delAddr bondAmt tokenSrc validator subtractAccount) =
             Return (newShares, Some err)"
  by (simp_all add: reach_tokens [OF assms(1-3)] assms(4) Delegate_shares_def invoke_def)

text \<open>A run in which the store refuses the delegation: minting has issued 100 shares by then.\<close>

lemma test_run_store_fails:
  "fst (Delegate failingStoreKeeper (testWorld, []) [2] 100 Unbonded
          (testValidator\<lparr>Status := Bonded\<rparr>) True) =
     Return (Dec (100 * 10 ^ 18), Some (ErrOther ''store write failed''))"
  by (simp add: run_defs value_defs test_defs failingStoreKeeper_def)

text \<open>
  Claim C10. The decimal that \<open>Delegate\<close> returns with an error depends on the step that
  failed. The zero decimal comes with the error of the exchange-rate gate, of the decoding
  of the operator address, of a delegation lookup that is not \<open>ErrNoDelegation\<close>, and of
  either hook before the change. The nil decimal comes with the error of the encoding of
  the delegator address, of the lookup of the bonding denomination, and of the transfer
  (from the account or between the pools). The \<open>newShares\<close> that minting returned come
  with the error of minting, of \<open>SetDelegation\<close> and of \<open>AfterDelegationModified\<close>; the
  last conjunct is a run in which they are not zero.
\<close>

theorem C10_decimal_returned_with_error:
  "(InvalidExRate validator \<longrightarrow>
      fst (Delegate k (w, []) delAddr bondAmt tokenSrc validator subtractAccount) =
        Return (LegacyZeroDec, Some ErrDelegatorShareExRateInvalid))
   \<and> (\<not> InvalidExRate validator \<and> StringToBytes k (GetOperator validator) = Inl err \<longrightarrow>
      fst (Delegate k (w, []) delAddr bondAmt tokenSrc validator subtractAccount) =
        Return (LegacyZeroDec, Some err))
   \<and> (\<not> InvalidExRate validator \<and> StringToBytes k (GetOperator validator) = Inr valbz \<and>
      GetDelegation k w delAddr valbz = (Inl err, w1) \<and> \<not> errors_Is err ErrNoDelegation \<longrightarrow>
      fst (Delegate k (w, []) delAddr bondAmt tokenSrc validator subtractAccount) =
        Return (LegacyZeroDec, Some err))
   \<and> (\<not> InvalidExRate validator \<and> StringToBytes k (GetOperator validator) = Inr valbz \<and>
      GetDelegation k w delAddr valbz = (Inr found, w1) \<and>
      BeforeDelegationSharesModified k w1 delAddr valbz = (Some err, w2) \<longrightarrow>
      fst (Delegate k (w, []) delAddr bondAmt tokenSrc validator subtractAccount) =
        Return (LegacyZeroDec, Some err))
   \<and> (\<not> InvalidExRate validator \<and> StringToBytes k (GetOperator validator) = Inr valbz \<and>
      GetDelegation k w delAddr valbz = (Inl gerr, w1) \<and> errors_Is gerr ErrNoDelegation \<and>
      BytesToString k delAddr = Inr str \<and>
      BeforeDelegationCreated k w1 delAddr valbz = (Some err, w2) \<longrightarrow>
      fst (Delegate k (w, []) delAddr bondAmt tokenSrc validator subtractAccount) =
        Return (LegacyZeroDec, Some err))
   \<and> (\<not> InvalidExRate validator \<and> StringToBytes k (GetOperator validator) = Inr valbz \<and>
      GetDelegation k w delAddr valbz = (Inl gerr, w1) \<and> errors_Is gerr ErrNoDelegation \<and>
      BytesToString k delAddr = Inl err \<longrightarrow>
      fst (Delegate k (w, []) delAddr bondAmt tokenSrc validator subtractAccount) =
        Return (NilDec, Some err))
   \<and> (\<not> InvalidExRate validator \<and> StringToBytes k (GetOperator validator) = Inr valbz \<and>
      Delegate_delegation k (w, [StringToBytes_call (GetOperator validator) (Inr valbz)])
        delAddr valbz validator = (Inr (delegation, None), (w2, l2)) \<longrightarrow>
      ((subtractAccount \<and> tokenSrc \<noteq> Bonded \<and> Status validator \<in> {Bonded, Unbonding, Unbonded}
        \<or> \<not> subtractAccount \<and> (tokenSrc = Unbonded \<or> tokenSrc = Unbonding) \<and> IsBonded validator
        \<or> \<not> subtractAccount \<and> tokenSrc = Bonded \<and> \<not> IsBonded validator) \<and>
       BondDenom k w2 = (Inl err, w3) \<longrightarrow>
         fst (Delegate k (w, []) delAddr bondAmt tokenSrc validator subtractAccount) =
           Return (NilDec, Some err))
      \<and> (subtractAccount \<and> tokenSrc \<noteq> Bonded \<and>
           (Status validator = Bonded \<and> pool = BondedPoolName
            \<or> (Status validator = Unbonding \<or> Status validator = Unbonded) \<and>
               pool = NotBondedPoolName) \<and>
         BondDenom k w2 = (Inr denom, w3) \<and> NewCoins k denom bondAmt = Return coins \<and>
         DelegateCoinsFromAccountToModule k w3 delAddr pool coins = (Some err, w4) \<longrightarrow>
           fst (Delegate k (w, []) delAddr bondAmt tokenSrc validator subtractAccount) =
             Return (NilDec, Some err))
      \<and> (\<not> subtractAccount \<and>
           ((tokenSrc = Unbonded \<or> tokenSrc = Unbonding) \<and> IsBonded validator \<and>
              sender = NotBondedPoolName \<and> recipient = BondedPoolName
            \<or> tokenSrc = Bonded \<and> \<not> IsBonded validator \<and>
              sender = BondedPoolName \<and> recipient = NotBondedPoolName) \<and>
         BondDenom k w2 = (Inr denom, w3) \<and> NewCoins k denom bondAmt = Return coins \<and>
         SendCoinsFromModuleToModule k w3 sender recipient coins = (Some err, w4) \<longrightarrow>
           fst (Delegate k (w, []) delAddr bondAmt tokenSrc validator subtractAccount) =
             Return (NilDec, Some err))
      \<and> (Delegate_tokens k (w2, l2) delAddr bondAmt tokenSrc validator subtractAccount =
           (Return None, (w3, l3)) \<longrightarrow>
          (AddValidatorTokensAndShares k w3 validator bondAmt = ((valOut, newShares, Some err), w4) \<longrightarrow>
             fst (Delegate k (w, []) delAddr bondAmt tokenSrc validator subtractAccount) =
               Return (newShares, Some err))
          \<and> (AddValidatorTokensAndShares k w3 validator bondAmt = ((valOut, newShares, None), w4) \<and>
              LegacyDec_Add (Shares delegation) newShares = Return sharesOut \<and>
              SetDelegation k w4 (delegation\<lparr>Shares := sharesOut\<rparr>) = (Some err, w5) \<longrightarrow>
             fst (Delegate k (w, []) delAddr bondAmt tokenSrc validator subtractAccount) =
               Return (newShares, Some err))
          \<and> (AddValidatorTokensAndShares k w3 validator bondAmt = ((valOut, newShares, None), w4) \<and>
              LegacyDec_Add (Shares delegation) newShares = Return sharesOut \<and>
              SetDelegation k w4 (delegation\<lparr>Shares := sharesOut\<rparr>) = (None, w5) \<and>
              AfterDelegationModified k w5 delAddr valbz = (Some err, w6) \<longrightarrow>
             fst (Delegate k (w, []) delAddr bondAmt tokenSrc validator subtractAccount) =
               Return (newShares, Some err))))
   \<and> fst (Delegate failingStoreKeeper (testWorld, []) [2] 100 Unbonded
            (testValidator\<lparr>Status := Bonded\<rparr>) True) =
       Return (Dec (100 * 10 ^ 18), Some (ErrOther ''store write failed''))"
proof (intro conjI impI; (elim conjE)?)
  show "fst (Delegate failingStoreKeeper (testWorld, []) [2] 100 Unbonded
            (testValidator\<lparr>Status := Bonded\<rparr>) True) =
       Return (Dec (100 * 10 ^ 18), Some (ErrOther ''store write failed''))"
    by (rule test_run_store_fails)
  show "InvalidExRate validator \<Longrightarrow>
      fst (Delegate k (w, []) delAddr bondAmt tokenSrc validator subtractAccount) =
        Return (LegacyZeroDec, Some ErrDelegatorShareExRateInvalid)"
    by (simp add: Delegate_def)
qed (blast intro: early_errors token_errors share_errors)+

theorem C10_decimal_returned_with_error_witness:
  "\<not> InvalidExRate (testValidator\<lparr>Status := Bonded\<rparr>) \<and>
   StringToBytes noDenomKeeper (GetOperator (testValidator\<lparr>Status := Bonded\<rparr>)) = Inr [1] \<and>
   BondDenom noDenomKeeper testWorld = (Inl (ErrOther ''bond denom not set''), testWorld) \<and>
   fst (Delegate noDenomKeeper (testWorld, []) [2] 100 Unbonded
          (testValidator\<lparr>Status := Bonded\<rparr>) True) =
     Return (NilDec, Some (ErrOther ''bond denom not set''))"
proof -
  let ?v = "testValidator\<lparr>Status := Bonded\<rparr>"
  let ?d = "\<lparr>DelegatorAddress = ''evmos1'', ValidatorAddress = ''evmosvaloper1'', Shares = Dec 0\<rparr>"
  let ?l2 = "[StringToBytes_call ''evmosvaloper1'' (Inr [1]),
              GetDelegation_call [2] [1] (Inl ErrNoDelegation),
              BytesToString_call [2] (Inr ''evmos1''),
              BeforeDelegationCreated_call [2] [1] None]"
  have valid: "\<not> InvalidExRate ?v"
    by (rule test_validator_facts)
  have dec: "StringToBytes noDenomKeeper (GetOperator ?v) = Inr [1]"
    by (simp add: noDenomKeeper_def value_defs test_defs)
  have deleg: "Delegate_delegation noDenomKeeper
      (testWorld, [StringToBytes_call (GetOperator ?v) (Inr [1])]) [2] [1] ?v =
      (Inr (?d, None), (testWorld, ?l2))"
    by (simp add: Delegate_delegation_def invoke_def noDenomKeeper_def value_defs test_defs)
  have denom: "BondDenom noDenomKeeper testWorld = (Inl (ErrOther ''bond denom not set''), testWorld)"
    by (simp add: noDenomKeeper_def test_defs)
  have case1: "True \<and> Unbonded \<noteq> Bonded \<and> Status ?v \<in> {Bonded, Unbonding, Unbonded}"
    by simp
  from C10_decimal_returned_with_error
         [where validator = ?v and k = noDenomKeeper and w = testWorld and delAddr = "[2]"
            and bondAmt = 100 and tokenSrc = Unbonded and subtractAccount = True
            and valbz = "[1]" and delegation = ?d and ?w2.0 = testWorld and ?l2.0 = ?l2
            and err = "ErrOther ''bond denom not set''" and ?w3.0 = testWorld]
       valid dec deleg denom case1
  show ?thesis
    by blast
qed

end
